theory Spec2Isabelle
  imports Complex_Main "HOL-Library.Word"
begin

section \<open>JavaScript numbers\<close>

text \<open>
  A JavaScript \<open>number\<close> is a double: a finite value, one of the two infinities, or
  NaN. The finite values are embedded in \<open>real\<close>; rounding never enters, because the
  code modelled here only compares numbers and takes minima and maxima, which are
  exact. (The sign of zero is not represented.)
\<close>

datatype number = NaN | NegInf | Finite real | PosInf

text \<open>The comparison \<open>a < b\<close> of the language: false as soon as one side is NaN.\<close>

fun num_less :: "number \<Rightarrow> number \<Rightarrow> bool" where
  "num_less NaN _ = False"
| "num_less _ NaN = False"
| "num_less _ NegInf = False"
| "num_less NegInf _ = True"
| "num_less PosInf _ = False"
| "num_less (Finite u) PosInf = True"
| "num_less (Finite u) (Finite v) = (u < v)"


definition Math_min :: "number \<Rightarrow> number \<Rightarrow> number" where
  "Math_min u v = (if u = NaN \<or> v = NaN then NaN else if num_less v u then v else u)"

definition Math_max :: "number \<Rightarrow> number \<Rightarrow> number" where
  "Math_max u v = (if u = NaN \<or> v = NaN then NaN else if num_less u v then v else u)"

text \<open>
  \<open>a % b !== 0\<close> on non-negative integers: the remainder by zero is NaN, and
  \<open>NaN !== 0\<close> holds.
\<close>

definition remainder_nonzero :: "nat \<Rightarrow> nat \<Rightarrow> bool" where
  "remainder_nonzero m d = (d = 0 \<or> 0 < m mod d)"

text \<open>
  A counted loop \<open>for (let i = i0; i < i0 + k; i++) s = body(i, s)\<close>, by recursion on
  the number \<open>k\<close> of iterations left.
\<close>

fun forLoop :: "nat \<Rightarrow> nat \<Rightarrow> (nat \<Rightarrow> 's \<Rightarrow> 's) \<Rightarrow> 's \<Rightarrow> 's" where
  "forLoop 0 i body s = s"
| "forLoop (Suc k) i body s = forLoop k (Suc i) body (body i s)"

section \<open>ROS messages (the shapes of \<open>../ros\<close> that the code reads)\<close>

record RosTime =
  sec :: int
  nsec :: int

text \<open>
  Modelled from the spec: \<open>rosTimeToNanoSec\<close> is imported from \<open>../ros\<close>, which is
  not among the sources; timestamps are nanosecond-resolution integers.
\<close>

definition rosTimeToNanoSec :: "RosTime \<Rightarrow> int" where
  "rosTimeToNanoSec t = sec t * 1000000000 + nsec t"

record Header =
  stamp :: RosTime
  frame_id :: string

record Vector3 =
  vec_x :: number
  vec_y :: number
  vec_z :: number

record Quaternion =
  quat_x :: number
  quat_y :: number
  quat_z :: number
  quat_w :: number

record Pose =
  position :: Vector3
  orientation :: Quaternion

text \<open>The channels \<open>r\<close>, \<open>g\<close>, \<open>b\<close>, \<open>a\<close> of a color.\<close>

record ColorRGBA =
  col_r :: number
  col_g :: number
  col_b :: number
  col_a :: number

record PointField =
  name :: string
  offset :: nat
  field_datatype :: nat
  field_count :: nat

text \<open>
  The integer members of a PointCloud2 are unsigned 32-bit values held in numbers; the
  products the code forms from them are compared with values below \<open>2^53\<close>, where
  the comparisons agree with those of the natural numbers.
\<close>

record PointCloud2 =
  header :: Header
  height :: nat
  width :: nat
  pc_fields :: "PointField list"  \<comment> \<open>\<open>fields\<close>\<close>
  is_bigendian :: bool
  point_step :: nat
  row_step :: nat
  data :: "8 word list"

record Marker =
  marker_header :: Header
  ns :: string
  marker_id :: int
  marker_type :: nat
  marker_pose :: Pose
  scale :: Vector3
  color :: ColorRGBA
  marker_colors :: "ColorRGBA list"
  marker_points :: "Vector3 list"

text \<open>
  Modelled from the spec: \<open>makePose\<close> is imported from \<open>../transforms/geometry\<close>,
  which is not among the sources; it is taken to build the identity pose.
\<close>

definition makePose :: Pose where
  "makePose =
     \<lparr>position = \<lparr>vec_x = Finite 0, vec_y = Finite 0, vec_z = Finite 0\<rparr>,
      orientation = \<lparr>quat_x = Finite 0, quat_y = Finite 0, quat_z = Finite 0,
                     quat_w = Finite 1\<rparr>\<rparr>"

section \<open>Renderer: the animation-frame loop (Renderer.ts)\<close>

text \<open>
  The renderer drives effects on collaborators whose code is not part of the sources
  (the event emitter, the orbit controls, the WebGL context, the FrameAxes and Markers
  collections). Each such call is recorded, in program order, as one \<open>action\<close> of a
  trace. \<open>bigint\<close> times are \<open>int\<close>.
\<close>

datatype action =
    RequestAnimationFrame        \<comment> \<open>\<open>requestAnimationFrame(this.animationFrame)\<close>\<close>
  | Emit string int              \<comment> \<open>\<open>this.emit(event, currentTime, this)\<close>\<close>
  | ControlsUpdate               \<comment> \<open>\<open>this.controls.update()\<close>\<close>
  | MaterialCacheUpdate          \<comment> \<open>\<open>this.materialCache.update(this.input.canvasSize)\<close>\<close>
  | FrameAxesStartFrame int      \<comment> \<open>\<open>this.frameAxes.startFrame(currentTime)\<close>\<close>
  | MarkersStartFrame int        \<comment> \<open>\<open>this.markers.startFrame(currentTime)\<close>\<close>
  | GlClear                      \<comment> \<open>\<open>this.gl.clear()\<close>\<close>
  | GlRender                     \<comment> \<open>\<open>this.gl.render(this.scene, this.camera)\<close>\<close>
  | GlInfoReset                  \<comment> \<open>\<open>this.gl.info.reset()\<close>\<close>

text \<open>
  The text of a diagnostic. The code builds it with a template literal; the model keeps
  the template (the constructor) and the values interpolated into it.
\<close>

datatype message =
    BigEndianNotSupported
      \<comment> \<open>\<open>PointCloud2 is_bigendian=true is not supported\<close>\<close>
  | DataLengthNotMultiple nat nat
      \<comment> \<open>data length, point_step\<close>
  | NoFields
      \<comment> \<open>\<open>PointCloud2 has no fields\<close>\<close>
  | DataLengthTooSmall nat nat nat
      \<comment> \<open>data length, height, row_step\<close>
  | RowStepTooSmall nat nat nat
      \<comment> \<open>width, point_step, row_step\<close>
  | FieldInvalid string nat nat nat
      \<comment> \<open>field name, datatype, offset, point_step\<close>
  | TooFewPositionFields
      \<comment> \<open>\<open>PointCloud2 must contain at least two of x/y/z fields\<close>\<close>

text \<open>
  Modelled from the spec: the shared material cache (\<open>MaterialCache\<close>, not among the
  sources) is reference-counted by configuration identity. For point clouds the
  identity is what \<open>PointsVertexColor.id(scale, transparent)\<close> receives.
\<close>

type_synonym material_id = "number \<times> number \<times> bool"

type_synonym MaterialCache = "material_id \<Rightarrow> nat"

definition acquire :: "material_id \<Rightarrow> MaterialCache \<Rightarrow> MaterialCache" where
  "acquire k c = c(k := Suc (c k))"

definition release :: "material_id \<Rightarrow> MaterialCache \<Rightarrow> MaterialCache" where
  "release k c = c(k := c k - 1)"

text \<open>
  Modelled from the spec: the per-topic diagnostic sink of the Renderer (the class
  \<open>TopicErrors\<close> is not among the sources) holds diagnostics keyed by (topic, error
  kind).
\<close>

type_synonym TopicErrors = "string \<times> string \<Rightarrow> message option"

text \<open>
  The members of the Renderer class of Renderer.ts that the modelled code reads or
  assigns. The class has the sink \<open>topicErrors\<close> and no member \<open>layerErrors\<close>:
  where PointClouds reads \<open>renderer.layerErrors\<close> (in \<open>startFrame\<close> and in
  \<open>invalidPointCloudError\<close>) the read yields \<open>undefined\<close>, and the call of
  \<open>addToTopic\<close> on it throws a TypeError. The transform tree (\<open>'t\<close>) is only handed
  on to \<open>updatePose\<close>.
\<close>

record 't Renderer =
  currentTime :: "int option"
  fixedFrameId :: "string option"
  renderFrameId :: "string option"
  materialCache :: MaterialCache
  topicErrors :: TopicErrors
  transformTree :: 't
  trace :: "action list"

definition perform :: "action \<Rightarrow> 't Renderer \<Rightarrow> 't Renderer" where
  "perform act rd = rd\<lparr>trace := trace rd @ [act]\<rparr>"

text \<open>\<open>frameHandler\<close>, statement by statement.\<close>

definition frameHandler :: "int \<Rightarrow> 't Renderer \<Rightarrow> 't Renderer" where
  "frameHandler t rd =
     (let r1 = perform (Emit ''startFrame'' t) rd;
          r2 = perform ControlsUpdate r1;
          r3 = r2\<lparr>fixedFrameId := Some ''base_link''\<rparr>;
          r4 = r3\<lparr>renderFrameId := Some ''base_link''\<rparr>;
          r5 = perform MaterialCacheUpdate r4;
          r6 = perform (FrameAxesStartFrame t) r5;
          r7 = perform (MarkersStartFrame t) r6;
          r8 = perform GlClear r7;
          r9 = perform GlRender r8;
          r10 = perform (Emit ''endFrame'' t) r9
      in perform GlInfoReset r10)"

text \<open>
  \<open>animationFrame\<close>: re-arm the callback, then run the frame only when
  \<open>this.currentTime != undefined\<close> (so a time of \<open>0n\<close> does run it).
\<close>

definition animationFrame :: "'t Renderer \<Rightarrow> 't Renderer" where
  "animationFrame rd =
     (let r1 = perform RequestAnimationFrame rd
      in case currentTime r1 of
           None \<Rightarrow> r1
         | Some t \<Rightarrow> frameHandler t r1)"

text \<open>\<open>n\<close> successive callbacks of the display, with nothing else happening in between.\<close>

fun ticks :: "nat \<Rightarrow> 't Renderer \<Rightarrow> 't Renderer" where
  "ticks 0 rd = rd"
| "ticks (Suc n) rd = ticks n (animationFrame rd)"

text \<open>A renderer right after construction: nothing set, nothing traced.\<close>

definition initialRenderer :: "unit Renderer" where
  "initialRenderer =
     \<lparr>currentTime = None, fixedFrameId = None, renderFrameId = None,
      materialCache = (\<lambda>k. 0), topicErrors = Map.empty, transformTree = (),
      trace = []\<rparr>"

text \<open>The actions one call of \<open>frameHandler\<close> performs, from an empty trace.\<close>

definition frameActions :: "int \<Rightarrow> action list" where
  "frameActions t = trace (frameHandler t initialRenderer)"

text \<open>Position of the first occurrence of an action in a trace.\<close>

fun firstIndex :: "action \<Rightarrow> action list \<Rightarrow> nat option" where
  "firstIndex act [] = None"
| "firstIndex act (b # bs) =
     (if act = b then Some 0 else map_option Suc (firstIndex act bs))"

section \<open>Markers: RenderableMarker and RenderableSphere\<close>

record MarkerUserData =
  ud_pose :: Pose
  ud_srcTime :: int

text \<open>\<open>a === b\<close> on numbers: NaN is not equal to anything, itself included.\<close>

definition strictEquals :: "number \<Rightarrow> number \<Rightarrow> bool" where
  "strictEquals u v = (u \<noteq> NaN \<and> v \<noteq> NaN \<and> u = v)"

text \<open>
  Modelled from the spec: \<open>rgbaEqual\<close> is imported from \<open>../../color\<close>, which is not
  among the sources; it is taken to compare the four channels of the two colors with
  \<open>===\<close>.
\<close>

definition rgbaEqual :: "ColorRGBA \<Rightarrow> ColorRGBA \<Rightarrow> bool" where
  "rgbaEqual c1 c2 =
     (strictEquals (col_r c1) (col_r c2) \<and> strictEquals (col_g c1) (col_g c2) \<and>
      strictEquals (col_b c1) (col_b c2) \<and> strictEquals (col_a c1) (col_a c2))"

text \<open>
  A sphere renderable: the members of RenderableMarker (\<open>name\<close>, \<open>topic\<close>, \<open>marker\<close>,
  \<open>userData\<close>), the material of its mesh and the scale of the object. Materials
  (\<open>'m\<close>) and the material cache (\<open>'c\<close>) belong to \<open>./materials\<close>, which is not among
  the sources: \<open>standardMaterial\<close> and \<open>releaseStandardMaterial\<close>, and likewise
  \<open>getMarkerId\<close> of \<open>./markerId\<close>, are parameters of the functions that call them.
\<close>

record 'm RenderableSphere =
  sphere_name :: string
  sphere_topic :: string
  marker :: Marker
  userData :: MarkerUserData
  mesh_material :: 'm
  object_scale :: Vector3

text \<open>\<open>RenderableMarker.update\<close>.\<close>

definition RenderableMarker_update ::
  "Marker \<Rightarrow> 'm RenderableSphere \<Rightarrow> 'm RenderableSphere" where
  "RenderableMarker_update mk s =
     (let s1 = s\<lparr>marker := mk\<rparr>;
          s2 = s1\<lparr>userData := (userData s1)\<lparr>ud_srcTime :=
                  rosTimeToNanoSec (stamp (marker_header mk))\<rparr>\<rparr>
      in s2\<lparr>userData := (userData s2)\<lparr>ud_pose := marker_pose mk\<rparr>\<rparr>)"

text \<open>
  \<open>RenderableSphere.update\<close>, on the sphere and the material cache of its renderer.
  The guard reads \<open>this.marker.color\<close> after \<open>super.update\<close> has run.
\<close>

definition RenderableSphere_update ::
  "(Marker \<Rightarrow> 'c \<Rightarrow> 'm \<times> 'c) \<Rightarrow> (Marker \<Rightarrow> 'c \<Rightarrow> 'c) \<Rightarrow>
   Marker \<Rightarrow> 'm RenderableSphere \<times> 'c \<Rightarrow> 'm RenderableSphere \<times> 'c" where
  "RenderableSphere_update standardMaterial releaseStandardMaterial mk sc =
     (let s1 = RenderableMarker_update mk (fst sc);
          (s2, c2) =
            (if \<not> rgbaEqual (color mk) (color (marker s1))
             then (let c1 = releaseStandardMaterial mk (snd sc);
                       (mat, c2) = standardMaterial mk c1
                   in (s1\<lparr>mesh_material := mat\<rparr>, c2))
             else (s1, snd sc))
      in (s2\<lparr>object_scale := \<lparr>vec_x = vec_x (scale mk), vec_y = vec_y (scale mk),
                                 vec_z = vec_z (scale mk)\<rparr>\<rparr>, c2))"

text \<open>
  The constructor of RenderableSphere (with the one of RenderableMarker): the material
  is taken from the cache, the mesh is built on it, and \<open>update\<close> runs once. (The
  entry the constructor adds to \<open>renderer.renderables\<close> and the shared sphere
  geometry play no part in what follows and are left out.)
\<close>

definition RenderableSphere_new ::
  "(Marker \<Rightarrow> 'c \<Rightarrow> 'm \<times> 'c) \<Rightarrow> (Marker \<Rightarrow> 'c \<Rightarrow> 'c) \<Rightarrow>
   (string \<Rightarrow> string \<Rightarrow> int \<Rightarrow> string) \<Rightarrow>
   string \<Rightarrow> Marker \<Rightarrow> 'c \<Rightarrow> 'm RenderableSphere \<times> 'c" where
  "RenderableSphere_new standardMaterial releaseStandardMaterial getMarkerId
       topicName mk c =
     (let (mat, c1) = standardMaterial mk c;
          s = \<lparr>sphere_name = getMarkerId topicName (ns mk) (marker_id mk),
               sphere_topic = topicName,
               marker = mk,
               userData = \<lparr>ud_pose = marker_pose mk,
                           ud_srcTime = rosTimeToNanoSec (stamp (marker_header mk))\<rparr>,
               mesh_material = mat,
               object_scale = \<lparr>vec_x = Finite 1, vec_y = Finite 1, vec_z = Finite 1\<rparr>\<rparr>
      in RenderableSphere_update standardMaterial releaseStandardMaterial mk (s, c1))"

text \<open>A sequence of marker messages delivered to one sphere, in order.\<close>

fun updates ::
  "(Marker \<Rightarrow> 'c \<Rightarrow> 'm \<times> 'c) \<Rightarrow> (Marker \<Rightarrow> 'c \<Rightarrow> 'c) \<Rightarrow>
   Marker list \<Rightarrow> 'm RenderableSphere \<times> 'c \<Rightarrow> 'm RenderableSphere \<times> 'c" where
  "updates sm rm [] sc = sc"
| "updates sm rm (mk # mks) sc = updates sm rm mks (RenderableSphere_update sm rm mk sc)"

text \<open>A color all of whose channels are numbers.\<close>

definition numericColor :: "ColorRGBA \<Rightarrow> bool" where
  "numericColor c = (col_r c \<noteq> NaN \<and> col_g c \<noteq> NaN \<and> col_b c \<noteq> NaN \<and> col_a c \<noteq> NaN)"

text \<open>
  Concrete collaborators for evaluation: a material is known by the color it was made
  for; the cache counts the materials handed out.
\<close>

definition materialOfColor :: "Marker \<Rightarrow> nat \<Rightarrow> ColorRGBA \<times> nat" where
  "materialOfColor mk c = (color mk, Suc c)"

definition releaseCounted :: "Marker \<Rightarrow> nat \<Rightarrow> nat" where
  "releaseCounted mk c = c - 1"

definition exampleMarkerId :: "string \<Rightarrow> string \<Rightarrow> int \<Rightarrow> string" where
  "exampleMarkerId topicName nsName i = topicName @ '':'' @ nsName"

definition rgba :: "real \<Rightarrow> real \<Rightarrow> real \<Rightarrow> real \<Rightarrow> ColorRGBA" where
  "rgba r0 g0 b0 a0 = \<lparr>col_r = Finite r0, col_g = Finite g0, col_b = Finite b0, col_a = Finite a0\<rparr>"

text \<open>A color whose red channel is NaN.\<close>

definition nanColor :: ColorRGBA where
  "nanColor = \<lparr>col_r = NaN, col_g = Finite 0, col_b = Finite 0, col_a = Finite 1\<rparr>"

definition sphereMarker :: "int \<Rightarrow> ColorRGBA \<Rightarrow> Marker" where
  "sphereMarker t c =
     \<lparr>marker_header = \<lparr>stamp = \<lparr>sec = t, nsec = 0\<rparr>, frame_id = ''base_link''\<rparr>,
      ns = ''ns'', marker_id = 0, marker_type = 2, marker_pose = makePose,
      scale = \<lparr>vec_x = Finite 1, vec_y = Finite 1, vec_z = Finite 1\<rparr>,
      color = c, marker_colors = [], marker_points = []\<rparr>"

section \<open>Point clouds: settings, geometry, renderables\<close>

datatype PointCloudColorMode = Flat | Gradient | Rainbow | Turbo | Rgb | Rgba

text \<open>
  The members of \<open>PointCloudSettings\<close> (declared in \<open>./pointClouds/settings\<close>) that
  the code reads or assigns; an optional member that is \<open>undefined\<close> is \<open>None\<close>.
\<close>

record PointCloudSettings =
  pointSize :: number
  pointShape :: string
  decayTime :: number
  colorMode :: PointCloudColorMode
  rgbByteOrder :: string
  flatColor :: ColorRGBA
  minColor :: ColorRGBA
  maxColor :: ColorRGBA
  colorField :: "string option"
  minValue :: "number option"
  maxValue :: "number option"

definition DEFAULT_POINT_SIZE :: number where
  "DEFAULT_POINT_SIZE = Finite (3 / 2)"

definition DEFAULT_POINT_SHAPE :: string where
  "DEFAULT_POINT_SHAPE = ''circle''"

definition DEFAULT_COLOR_MODE :: PointCloudColorMode where
  "DEFAULT_COLOR_MODE = Turbo"

definition DEFAULT_FLAT_COLOR :: ColorRGBA where
  "DEFAULT_FLAT_COLOR = rgba 1 1 1 1"

definition DEFAULT_MIN_COLOR :: ColorRGBA where
  "DEFAULT_MIN_COLOR = rgba 0 0 1 1"

definition DEFAULT_MAX_COLOR :: ColorRGBA where
  "DEFAULT_MAX_COLOR = rgba 1 0 0 1"

definition DEFAULT_RGB_BYTE_ORDER :: string where
  "DEFAULT_RGB_BYTE_ORDER = ''rgba''"

definition COLOR_FIELDS :: "string set" where
  "COLOR_FIELDS = {''rgb'', ''rgba'', ''bgr'', ''bgra'', ''abgr'', ''color''}"

definition INTENSITY_FIELDS :: "string set" where
  "INTENSITY_FIELDS = {''intensity'', ''i''}"

definition INVALID_POINT_CLOUD :: string where
  "INVALID_POINT_CLOUD = ''INVALID_POINT_CLOUD''"

text \<open>
  A field reader decodes one value of a point from the view over the payload, at the
  byte offset of the point. \<open>getReader\<close> (of \<open>./pointClouds/fieldReaders\<close>, not among
  the sources) is a parameter: it yields a reader, or \<open>undefined\<close> (\<open>None\<close>).
\<close>

type_synonym FieldReader = "8 word list \<Rightarrow> nat \<Rightarrow> number"

type_synonym GetReader = "PointField \<Rightarrow> nat \<Rightarrow> FieldReader option"

definition zeroReader :: FieldReader where
  "zeroReader view pointOffset = Finite 0"

text \<open>
  A buffer attribute of the graphics library: items of \<open>itemSize\<close> numbers, flat in one
  array. A write beyond the end of a typed array is dropped, as is a list update
  beyond the end of a list. (The narrowing of a number to single precision on its way
  into the array is not represented.)
\<close>

record BufferAttribute =
  itemSize :: nat
  array :: "number list"
  needsUpdate :: bool

definition setXYZ :: "nat \<Rightarrow> number \<Rightarrow> number \<Rightarrow> number \<Rightarrow> BufferAttribute \<Rightarrow> BufferAttribute" where
  "setXYZ i u v w att =
     att\<lparr>array := (array att)[i * itemSize att := u, i * itemSize att + 1 := v,
                               i * itemSize att + 2 := w]\<rparr>"

definition setXYZW ::
  "nat \<Rightarrow> number \<Rightarrow> number \<Rightarrow> number \<Rightarrow> number \<Rightarrow> BufferAttribute \<Rightarrow> BufferAttribute" where
  "setXYZW i u v w q att =
     att\<lparr>array := (array att)[i * itemSize att := u, i * itemSize att + 1 := v,
                               i * itemSize att + 2 := w, i * itemSize att + 3 := q]\<rparr>"

text \<open>
  Modelled from the spec: \<open>DynamicBufferGeometry\<close> is not among the sources. Its
  buffers are sized for \<open>itemCount\<close> items; \<open>resize\<close> gives every attribute a new
  buffer of exactly the requested number of items when that number differs from the
  current one, and otherwise leaves the buffers as they are. \<open>allocations\<close> counts the
  times the buffers were replaced, so that equal counts before and after mean the same
  buffer objects. The two attributes the collection creates and fetches, \<open>position\<close>
  and \<open>color\<close>, are the two attribute members of the record.
\<close>

record DynamicBufferGeometry =
  geometry_id :: nat
  geometry_name :: string
  itemCount :: nat
  attr_position :: BufferAttribute
  attr_color :: BufferAttribute
  allocations :: nat

definition DynamicBufferGeometry_new :: "nat \<Rightarrow> DynamicBufferGeometry" where
  "DynamicBufferGeometry_new ident =
     \<lparr>geometry_id = ident, geometry_name = [], itemCount = 0,
      attr_position = \<lparr>itemSize = 0, array = [], needsUpdate = False\<rparr>,
      attr_color = \<lparr>itemSize = 0, array = [], needsUpdate = False\<rparr>,
      allocations = 0\<rparr>"

definition newBuffer :: "nat \<Rightarrow> nat \<Rightarrow> BufferAttribute" where
  "newBuffer n isize = \<lparr>itemSize = isize, array = replicate (n * isize) (Finite 0),
                        needsUpdate = False\<rparr>"

definition createAttribute :: "string \<Rightarrow> nat \<Rightarrow> DynamicBufferGeometry \<Rightarrow> DynamicBufferGeometry" where
  "createAttribute attName isize g =
     (if attName = ''position'' then g\<lparr>attr_position := newBuffer (itemCount g) isize\<rparr>
      else if attName = ''color'' then g\<lparr>attr_color := newBuffer (itemCount g) isize\<rparr>
      else g)"

definition resize :: "nat \<Rightarrow> DynamicBufferGeometry \<Rightarrow> DynamicBufferGeometry" where
  "resize n g =
     (if n = itemCount g then g
      else g\<lparr>itemCount := n,
             attr_position := newBuffer n (itemSize (attr_position g)),
             attr_color := newBuffer n (itemSize (attr_color g)),
             allocations := Suc (allocations g)\<rparr>)"

text \<open>The \<open>THREE.Points\<close> object of a renderable: its geometry is held by identity.\<close>

record Points =
  points_id :: nat
  points_name :: string
  points_geometry :: nat
  material :: material_id
  pickingMaterial :: number  \<comment> \<open>the \<open>pointSize\<close> uniform of the picking shader\<close>

text \<open>
  A point-cloud renderable: a scene object (identity, name, children) with the
  members of its \<open>userData\<close>.
\<close>

record PointCloudRenderable =
  object_id :: nat
  object_name :: string
  object_children :: "nat list"
  topic :: string
  settings :: PointCloudSettings
  pointCloud :: PointCloud2
  pose :: Pose
  srcTime :: int
  geometry :: DynamicBufferGeometry
  points :: Points

text \<open>
  The collection. \<open>pointCloudsByTopic\<close> is the Map, in insertion order; \<open>children\<close>
  are the renderables attached to the scene graph, by identity; \<open>tempColor\<close> is the
  module-level scratch color; \<open>nextId\<close> numbers the objects created.
\<close>

record 't PointClouds =
  renderer :: "'t Renderer"
  pointCloudsByTopic :: "(string \<times> PointCloudRenderable) list"
  children :: "nat list"
  tempColor :: ColorRGBA
  nextId :: nat

definition PointClouds_new :: "'t Renderer \<Rightarrow> 't PointClouds" where
  "PointClouds_new rd =
     \<lparr>renderer = rd, pointCloudsByTopic = [], children = [],
      tempColor = rgba 0 0 0 0, nextId = 0\<rparr>"

text \<open>\<open>Map.prototype.set\<close>: an existing key keeps its place, a new key goes last.\<close>

fun Map_set :: "'k \<Rightarrow> 'v \<Rightarrow> ('k \<times> 'v) list \<Rightarrow> ('k \<times> 'v) list" where
  "Map_set k v [] = [(k, v)]"
| "Map_set k v ((k', v') # kvs) =
     (if k' = k then (k, v) # kvs else (k', v') # Map_set k v kvs)"

definition pointCloudHasTransparency :: "PointCloudSettings \<Rightarrow> bool" where
  "pointCloudHasTransparency st =
     (case colorMode st of
        Flat \<Rightarrow> num_less (col_a (flatColor st)) (Finite 1)
      | Gradient \<Rightarrow> num_less (col_a (minColor st)) (Finite 1) \<or>
                    num_less (col_a (maxColor st)) (Finite 1)
      | Rainbow \<Rightarrow> False
      | Turbo \<Rightarrow> False
      | Rgb \<Rightarrow> False
      | Rgba \<Rightarrow> True)"

definition pointsMaterial :: "PointCloudSettings \<Rightarrow> MaterialCache \<Rightarrow> material_id \<times> MaterialCache" where
  "pointsMaterial st cache =
     (let transparent = pointCloudHasTransparency st;
          ident = (pointSize st, pointSize st, transparent)
      in (ident, acquire ident cache))"

definition createPickingMaterial :: "PointCloudSettings \<Rightarrow> number" where
  "createPickingMaterial st = Math_max (pointSize st) (Finite 8)"

section \<open>Point clouds: choosing the color field\<close>

text \<open>The \<open>switch\<close> on the name of a color field; \<open>default\<close> shares the case of \<open>rgba\<close>.\<close>

definition selectColorMode :: "string \<Rightarrow> PointCloudSettings \<Rightarrow> PointCloudSettings" where
  "selectColorMode fname out =
     (if fname = ''rgb'' then out\<lparr>colorMode := Rgb, rgbByteOrder := ''rgba''\<rparr>
      else if fname = ''bgr'' then out\<lparr>colorMode := Rgb, rgbByteOrder := ''bgra''\<rparr>
      else if fname = ''bgra'' then out\<lparr>colorMode := Rgba, rgbByteOrder := ''bgra''\<rparr>
      else if fname = ''abgr'' then out\<lparr>colorMode := Rgba, rgbByteOrder := ''abgr''\<rparr>
      else out\<lparr>colorMode := Rgba, rgbByteOrder := ''rgba''\<rparr>)"

text \<open>The first loop: \<open>Some\<close> the settings at its \<open>return\<close>, \<open>None\<close> when it runs out.\<close>

fun selectColorField :: "PointField list \<Rightarrow> PointCloudSettings \<Rightarrow> PointCloudSettings option" where
  "selectColorField [] out = None"
| "selectColorField (f # fs) out =
     (if name f \<in> COLOR_FIELDS
      then Some (selectColorMode (name f) (out\<lparr>colorField := Some (name f)\<rparr>))
      else selectColorField fs out)"

text \<open>The second loop.\<close>

fun selectIntensityField :: "PointField list \<Rightarrow> PointCloudSettings \<Rightarrow> PointCloudSettings option" where
  "selectIntensityField [] out = None"
| "selectIntensityField (f # fs) out =
     (if name f \<in> INTENSITY_FIELDS
      then Some (out\<lparr>colorField := Some (name f), colorMode := DEFAULT_COLOR_MODE\<rparr>)
      else selectIntensityField fs out)"

definition autoSelectColorField :: "PointCloudSettings \<Rightarrow> PointCloud2 \<Rightarrow> PointCloudSettings" where
  "autoSelectColorField out pc =
     (case selectColorField (pc_fields pc) out of
        Some out' \<Rightarrow> out'
      | None \<Rightarrow>
          (case selectIntensityField (pc_fields pc) out of
             Some out' \<Rightarrow> out'
           | None \<Rightarrow>
               (case pc_fields pc of
                  [] \<Rightarrow> out
                | firstField # _ \<Rightarrow>
                    out\<lparr>colorField := Some (name firstField),
                        colorMode := DEFAULT_COLOR_MODE\<rparr>)))"

text \<open>The settings a new renderable starts from, before the color field is chosen.\<close>

definition initialSettings :: PointCloudSettings where
  "initialSettings =
     \<lparr>pointSize = DEFAULT_POINT_SIZE, pointShape = DEFAULT_POINT_SHAPE,
      decayTime = Finite 0, colorMode = Flat, rgbByteOrder = DEFAULT_RGB_BYTE_ORDER,
      flatColor = DEFAULT_FLAT_COLOR, minColor = DEFAULT_MIN_COLOR,
      maxColor = DEFAULT_MAX_COLOR, colorField = None, minValue = None,
      maxValue = None\<rparr>"

section \<open>Point clouds: validating and decoding a message\<close>

text \<open>How a call ends: it returns, or a TypeError leaves it.\<close>

datatype completion = Returned | ThrewTypeError

text \<open>
  \<open>invalidPointCloudError\<close>. Its first statement calls \<open>addToTopic\<close> on
  \<open>renderer.layerErrors\<close>, a member the Renderer does not have: the read yields
  \<open>undefined\<close> and the call throws a TypeError. Nothing is recorded, and the two
  statements after it are not reached (they read \<open>userData.positionAttribute\<close> and
  \<open>userData.colorAttribute\<close>, members that the \<open>userData\<close> of a point-cloud
  renderable does not have either). Renderer and renderable are as they were.
\<close>

definition invalidPointCloudError ::
  "'t Renderer \<Rightarrow> PointCloudRenderable \<Rightarrow> message \<Rightarrow>
   completion \<times> 't Renderer \<times> PointCloudRenderable" where
  "invalidPointCloudError rd renderable msg = (ThrewTypeError, rd, renderable)"

text \<open>The chain of checks under \<open>Invalid point cloud checks\<close>: the first that fires.\<close>

definition structuralError :: "PointCloud2 \<Rightarrow> message option" where
  "structuralError pc =
     (if is_bigendian pc then Some BigEndianNotSupported
      else if remainder_nonzero (length (data pc)) (point_step pc)
        then Some (DataLengthNotMultiple (length (data pc)) (point_step pc))
      else if length (pc_fields pc) = 0 then Some NoFields
      else if length (data pc) < height pc * row_step pc
        then Some (DataLengthTooSmall (length (data pc)) (height pc) (row_step pc))
      else if width pc * point_step pc > row_step pc
        then Some (RowStepTooSmall (width pc) (point_step pc) (row_step pc))
      else None)"

text \<open>The four reader variables of the scan; \<open>None\<close> is \<open>undefined\<close>.\<close>

record Readers =
  xReader :: "FieldReader option"
  yReader :: "FieldReader option"
  zReader :: "FieldReader option"
  colorReader :: "FieldReader option"

definition noReaders :: Readers where
  "noReaders = \<lparr>xReader = None, yReader = None, zReader = None, colorReader = None\<rparr>"

text \<open>The \<open>if\<close> / \<open>else if\<close> on the names \<open>x\<close>, \<open>y\<close>, \<open>z\<close> in the body of the scan.\<close>

definition bindPosition :: "GetReader \<Rightarrow> nat \<Rightarrow> PointField \<Rightarrow> Readers \<Rightarrow> message + Readers" where
  "bindPosition getReader step f rs =
     (if name f = ''x'' then
        (case getReader f step of
           None \<Rightarrow> Inl (FieldInvalid ''x'' (field_datatype f) (offset f) step)
         | Some rdr \<Rightarrow> Inr (rs\<lparr>xReader := Some rdr\<rparr>))
      else if name f = ''y'' then
        (case getReader f step of
           None \<Rightarrow> Inl (FieldInvalid ''y'' (field_datatype f) (offset f) step)
         | Some rdr \<Rightarrow> Inr (rs\<lparr>yReader := Some rdr\<rparr>))
      else if name f = ''z'' then
        (case getReader f step of
           None \<Rightarrow> Inl (FieldInvalid ''z'' (field_datatype f) (offset f) step)
         | Some rdr \<Rightarrow> Inr (rs\<lparr>zReader := Some rdr\<rparr>))
      else Inr rs)"

text \<open>The \<open>if\<close> on \<open>settings.colorField\<close> in the body of the scan.\<close>

definition bindColor ::
  "GetReader \<Rightarrow> PointCloudSettings \<Rightarrow> nat \<Rightarrow> PointField \<Rightarrow> Readers \<Rightarrow> message + Readers" where
  "bindColor getReader st step f rs =
     (if Some (name f) = colorField st then
        (case getReader f step of
           None \<Rightarrow> Inl (FieldInvalid (name f) (field_datatype f) (offset f) step)
         | Some rdr \<Rightarrow> Inr (rs\<lparr>colorReader := Some rdr\<rparr>))
      else Inr rs)"

definition allBound :: "Readers \<Rightarrow> bool" where
  "allBound rs =
     (xReader rs \<noteq> None \<and> yReader rs \<noteq> None \<and> zReader rs \<noteq> None \<and> colorReader rs \<noteq> None)"

text \<open>The scan of the fields, with its early \<open>return\<close>s (\<open>Inl\<close>) and its \<open>break\<close>.\<close>

fun scanFields ::
  "GetReader \<Rightarrow> PointCloudSettings \<Rightarrow> nat \<Rightarrow> PointField list \<Rightarrow> Readers \<Rightarrow> message + Readers" where
  "scanFields getReader st step [] rs = Inr rs"
| "scanFields getReader st step (f # fs) rs =
     (case bindPosition getReader step f rs of
        Inl msg \<Rightarrow> Inl msg
      | Inr rs1 \<Rightarrow>
          (case bindColor getReader st step f rs1 of
             Inl msg \<Rightarrow> Inl msg
           | Inr rs2 \<Rightarrow>
               if allBound rs2 then Inr rs2 else scanFields getReader st step fs rs2))"

definition positionReaderCount :: "Readers \<Rightarrow> nat" where
  "positionReaderCount rs =
     (if xReader rs \<noteq> None then 1 else 0) + (if yReader rs \<noteq> None then 1 else 0) +
     (if zReader rs \<noteq> None then 1 else 0)"

text \<open>The readers after the four \<open>??=\<close> assignments.\<close>

record BoundReaders =
  readX :: FieldReader
  readY :: FieldReader
  readZ :: FieldReader
  readColor :: FieldReader

definition orElse :: "'a option \<Rightarrow> 'a \<Rightarrow> 'a" where
  "orElse v d = (case v of Some u \<Rightarrow> u | None \<Rightarrow> d)"

definition defaultReaders :: "Readers \<Rightarrow> BoundReaders" where
  "defaultReaders rs =
     \<lparr>readX = orElse (xReader rs) zeroReader,
      readY = orElse (yReader rs) zeroReader,
      readZ = orElse (zReader rs) zeroReader,
      readColor = orElse (colorReader rs)
                    (orElse (xReader rs) (orElse (yReader rs) (orElse (zReader rs) zeroReader)))\<rparr>"

definition resolveReaders ::
  "GetReader \<Rightarrow> PointCloudSettings \<Rightarrow> PointCloud2 \<Rightarrow> message + BoundReaders" where
  "resolveReaders getReader st pc =
     (case scanFields getReader st (point_step pc) (pc_fields pc) noReaders of
        Inl msg \<Rightarrow> Inl msg
      | Inr rs \<Rightarrow>
          if positionReaderCount rs < 2 then Inl TooFewPositionFields
          else Inr (defaultReaders rs))"

text \<open>
  Everything of \<open>_updatePointCloudRenderable\<close> that can end in
  \<open>invalidPointCloudError\<close>: the message of the first failure, or the bound readers.
\<close>

definition validatePointCloud ::
  "GetReader \<Rightarrow> PointCloudSettings \<Rightarrow> PointCloud2 \<Rightarrow> message + BoundReaders" where
  "validatePointCloud getReader st pc =
     (case structuralError pc of
        Some msg \<Rightarrow> Inl msg
      | None \<Rightarrow> resolveReaders getReader st pc)"

text \<open>
  \<open>Math.trunc(data.length / point_step)\<close>. It is used only after the checks, where
  \<open>point_step\<close> is positive and divides the length.
\<close>

definition pointCount :: "PointCloud2 \<Rightarrow> nat" where
  "pointCount pc = length (data pc) div point_step pc"

text \<open>One step of the scan for the least and greatest color value.\<close>

definition scanPoint :: "FieldReader \<Rightarrow> 8 word list \<Rightarrow> nat \<Rightarrow> nat \<Rightarrow> number \<times> number \<Rightarrow> number \<times> number" where
  "scanPoint rdr view step i mm =
     (let pointOffset = i * step;
          colorValue = rdr view pointOffset
      in (Math_min (fst mm) colorValue, Math_max (snd mm) colorValue))"

text \<open>\<open>minColorValue\<close> and \<open>maxColorValue\<close> as handed to \<open>getColorConverter\<close>.\<close>

definition colorDomain ::
  "PointCloudSettings \<Rightarrow> FieldReader \<Rightarrow> 8 word list \<Rightarrow> nat \<Rightarrow> nat \<Rightarrow> number \<times> number" where
  "colorDomain st rdr view n step =
     (let minColorValue = orElse (minValue st) PosInf;
          maxColorValue = orElse (maxValue st) NegInf
      in if minValue st = None \<or> maxValue st = None then
           (let mm = forLoop n 0 (scanPoint rdr view step) (minColorValue, maxColorValue)
            in (orElse (minValue st) (fst mm), orElse (maxValue st) (snd mm)))
         else (minColorValue, maxColorValue))"

text \<open>
  A color converter writes into the color it is given (\<open>tempColor\<close>) and may leave
  channels as they are; \<open>getColorConverter\<close> (of \<open>./pointClouds/colors\<close>, not among
  the sources) is a parameter.
\<close>

type_synonym ColorConverter = "ColorRGBA \<Rightarrow> number \<Rightarrow> ColorRGBA"

type_synonym GetColorConverter = "PointCloudSettings \<Rightarrow> number \<Rightarrow> number \<Rightarrow> ColorConverter"

text \<open>The body of the loop that fills the two attributes.\<close>

definition populatePoint ::
  "BoundReaders \<Rightarrow> ColorConverter \<Rightarrow> 8 word list \<Rightarrow> nat \<Rightarrow> nat \<Rightarrow>
   BufferAttribute \<times> BufferAttribute \<times> ColorRGBA \<Rightarrow> BufferAttribute \<times> BufferAttribute \<times> ColorRGBA" where
  "populatePoint rs conv view step i st3 =
     (let pointOffset = i * step;
          px = readX rs view pointOffset;
          py = readY rs view pointOffset;
          pz = readZ rs view pointOffset;
          positionAttribute = setXYZ i px py pz (fst st3);
          colorValue = readColor rs view pointOffset;
          tc = conv (snd (snd st3)) colorValue;
          colorAttribute = setXYZW i (col_r tc) (col_g tc) (col_b tc) (col_a tc) (fst (snd st3))
      in (positionAttribute, colorAttribute, tc))"

text \<open>
  \<open>_updatePointCloudRenderable\<close>, on the renderer, the scratch color and the
  renderable; the message and its timestamp are stored before anything is checked.
\<close>

definition updatePointCloudRenderable ::
  "GetReader \<Rightarrow> GetColorConverter \<Rightarrow> 't Renderer \<Rightarrow> ColorRGBA \<Rightarrow> PointCloudRenderable \<Rightarrow>
   PointCloud2 \<Rightarrow> completion \<times> 't Renderer \<times> ColorRGBA \<times> PointCloudRenderable" where
  "updatePointCloudRenderable getReader getColorConverter rd tc renderable pc =
     (let r1 = renderable\<lparr>pointCloud := pc\<rparr>;
          r2 = r1\<lparr>srcTime := rosTimeToNanoSec (stamp (header pc))\<rparr>;
          st = settings r2
      in case validatePointCloud getReader st pc of
           Inl msg \<Rightarrow>
             (case invalidPointCloudError rd r2 msg of
                (cpl, rd', r') \<Rightarrow> (cpl, rd', tc, r'))
         | Inr rs \<Rightarrow>
             (let g = resize (pointCount pc) (geometry r2);
                  view = data pc;
                  mm = colorDomain st (readColor rs) view (pointCount pc) (point_step pc);
                  colorConverter = getColorConverter st (fst mm) (snd mm);
                  filled = forLoop (pointCount pc) 0
                             (populatePoint rs colorConverter view (point_step pc))
                             (attr_position g, attr_color g, tc);
                  g' = g\<lparr>attr_position := (fst filled)\<lparr>needsUpdate := True\<rparr>,
                         attr_color := (fst (snd filled))\<lparr>needsUpdate := True\<rparr>\<rparr>
              in (Returned, rd, snd (snd filled), r2\<lparr>geometry := g'\<rparr>)))"

text \<open>The renderable \<open>addPointCloud2Message\<close> builds for a topic it has not seen.\<close>

definition newRenderable ::
  "string \<Rightarrow> PointCloud2 \<Rightarrow> nat \<Rightarrow> MaterialCache \<Rightarrow> PointCloudRenderable \<times> MaterialCache" where
  "newRenderable topicName pc ident cache =
     (let st = autoSelectColorField initialSettings pc;
          g0 = DynamicBufferGeometry_new (ident + 1);
          g1 = g0\<lparr>geometry_name := topicName @ '':PointCloud2:geometry''\<rparr>;
          g2 = createAttribute ''position'' 3 g1;
          g3 = createAttribute ''color'' 4 g2;
          mc = pointsMaterial st cache;
          pts = \<lparr>points_id = ident + 2,
                 points_name = topicName @ '':PointCloud2:points'',
                 points_geometry = geometry_id g3,
                 material = fst mc,
                 pickingMaterial = createPickingMaterial st\<rparr>
      in (\<lparr>object_id = ident, object_name = topicName,
           object_children = [points_id pts], topic = topicName, settings = st,
           pointCloud = pc, pose = makePose,
           srcTime = rosTimeToNanoSec (stamp (header pc)),
           geometry = g3, points = pts\<rparr>,
          snd mc))"

text \<open>
  \<open>addPointCloud2Message\<close>. A new renderable is attached and registered before the
  update runs, so it stays registered when the update throws. The renderable of the
  Map is the object the update mutates; the model writes the result back under the
  topic.
\<close>

definition addPointCloud2Message ::
  "GetReader \<Rightarrow> GetColorConverter \<Rightarrow> string \<Rightarrow> PointCloud2 \<Rightarrow> 't PointClouds \<Rightarrow>
   completion \<times> 't PointClouds" where
  "addPointCloud2Message getReader getColorConverter topicName pc c =
     (let c1r =
            (case map_of (pointCloudsByTopic c) topicName of
               Some renderable \<Rightarrow> (c, renderable)
             | None \<Rightarrow>
                 (let rc = newRenderable topicName pc (nextId c) (materialCache (renderer c))
                  in (c\<lparr>renderer := (renderer c)\<lparr>materialCache := snd rc\<rparr>,
                        pointCloudsByTopic :=
                          Map_set topicName (fst rc) (pointCloudsByTopic c),
                        children := children c @ [object_id (fst rc)],
                        nextId := nextId c + 3\<rparr>,
                      fst rc)));
          c1 = fst c1r;
          res = updatePointCloudRenderable getReader getColorConverter (renderer c1)
                  (tempColor c1) (snd c1r) pc
      in (fst res,
          c1\<lparr>renderer := fst (snd res),
             tempColor := fst (snd (snd res)),
             pointCloudsByTopic :=
               Map_set topicName (snd (snd (snd res))) (pointCloudsByTopic c1)\<rparr>))"

section \<open>Point clouds: placing the renderables at the start of a frame\<close>

text \<open>
  \<open>updatePose\<close> (of \<open>../updatePose\<close>, not among the sources) is a parameter: from the
  renderable, the transform tree, the render frame, the fixed frame, the frame of the
  data, the current time and the source time it yields its success flag and the
  renderable as it leaves it.
\<close>

type_synonym 't UpdatePose =
  "PointCloudRenderable \<Rightarrow> 't \<Rightarrow> string \<Rightarrow> string \<Rightarrow> string \<Rightarrow> int \<Rightarrow> int \<Rightarrow> bool \<times> PointCloudRenderable"

text \<open>
  The loop over \<open>this.pointCloudsByTopic.values()\<close>. When \<open>updatePose\<close> answers
  false, the message is built and \<open>addToTopic\<close> is called on
  \<open>this.renderer.layerErrors\<close>, which is \<open>undefined\<close>: the call throws a TypeError
  and ends the loop. The renderables before that one have been handed to
  \<open>updatePose\<close>, that one too, and the renderables after it have not.
\<close>

fun poseLoop ::
  "'t UpdatePose \<Rightarrow> 't \<Rightarrow> string \<Rightarrow> string \<Rightarrow> int \<Rightarrow> (string \<times> PointCloudRenderable) list \<Rightarrow>
   completion \<times> (string \<times> PointCloudRenderable) list" where
  "poseLoop updatePose tree rf ff t [] = (Returned, [])"
| "poseLoop updatePose tree rf ff t ((k, renderable) # rest) =
     (let frameId = frame_id (header (pointCloud renderable));
          ur = updatePose renderable tree rf ff frameId t (srcTime renderable)
      in if \<not> fst ur then (ThrewTypeError, (k, snd ur) # rest)
         else (let done = poseLoop updatePose tree rf ff t rest
               in (fst done, (k, snd ur) # snd done)))"

text \<open>\<open>!id\<close> for a frame id: it is \<open>undefined\<close> or the empty string.\<close>

definition falsy :: "string option \<Rightarrow> bool" where
  "falsy v = (v = None \<or> v = Some [])"

definition startFrame ::
  "'t UpdatePose \<Rightarrow> int \<Rightarrow> 't PointClouds \<Rightarrow> completion \<times> 't PointClouds" where
  "startFrame updatePose t c =
     (if falsy (renderFrameId (renderer c)) \<or> falsy (fixedFrameId (renderer c))
      then (Returned, c)
      else
        (let rf = the (renderFrameId (renderer c));
             ff = the (fixedFrameId (renderer c));
             done = poseLoop updatePose (transformTree (renderer c)) rf ff t
                      (pointCloudsByTopic c)
         in (fst done, c\<lparr>pointCloudsByTopic := snd done\<rparr>)))"

section \<open>Point clouds: notions used in the statements\<close>

text \<open>
  The buffers of a geometry as the collection creates and keeps them: three numbers
  per item for the position, four for the color, and room for exactly \<open>itemCount\<close>
  items.
\<close>

definition geometry_ok :: "DynamicBufferGeometry \<Rightarrow> bool" where
  "geometry_ok g =
     (itemSize (attr_position g) = 3 \<and> itemSize (attr_color g) = 4 \<and>
      length (array (attr_position g)) = 3 * itemCount g \<and>
      length (array (attr_color g)) = 4 * itemCount g)"

text \<open>
  An axis resolves in a message when some field of the message has exactly that name
  and \<open>getReader\<close> yields a reader for it.
\<close>

definition resolves :: "GetReader \<Rightarrow> PointCloud2 \<Rightarrow> string \<Rightarrow> bool" where
  "resolves getReader pc axis =
     list_ex (\<lambda>f. name f = axis \<and> getReader f (point_step pc) \<noteq> None) (pc_fields pc)"



section \<open>Concrete collaborators and messages for evaluation\<close>

text \<open>
  A reader of one unsigned byte at a fixed offset within the point, a \<open>getReader\<close> that
  knows only that type (datatype 2, \<open>UINT8\<close>) and refuses an offset outside the point,
  and a converter that writes the value and the domain it was built for into the red,
  green and blue channels and leaves alpha as it is.
\<close>

definition byteReader :: "nat \<Rightarrow> FieldReader" where
  "byteReader off view pointOffset =
     (case drop (pointOffset + off) view of
        [] \<Rightarrow> NaN
      | byte # _ \<Rightarrow> Finite (real (unat byte)))"

definition exampleGetReader :: GetReader where
  "exampleGetReader f step =
     (if field_datatype f = 2 \<and> offset f < step then Some (byteReader (offset f)) else None)"

definition exampleGetColorConverter :: GetColorConverter where
  "exampleGetColorConverter st mn mx out v = out\<lparr>col_r := v, col_g := mn, col_b := mx\<rparr>"

definition byteField :: "string \<Rightarrow> nat \<Rightarrow> PointField" where
  "byteField fname off = \<lparr>name = fname, offset = off, field_datatype = 2, field_count = 1\<rparr>"

text \<open>A little-endian cloud of one row holding all of \<open>bytes\<close>, stamped \<open>t\<close> seconds.\<close>

definition cloud :: "int \<Rightarrow> PointField list \<Rightarrow> nat \<Rightarrow> 8 word list \<Rightarrow> PointCloud2" where
  "cloud t fs step bytes =
     \<lparr>header = \<lparr>stamp = \<lparr>sec = t, nsec = 0\<rparr>, frame_id = ''lidar''\<rparr>,
      height = 1, width = length bytes div step, pc_fields = fs,
      is_bigendian = False, point_step = step, row_step = length bytes,
      data = bytes\<rparr>"

text \<open>Three points with fields \<open>x\<close> and \<open>y\<close> only.\<close>

definition xyCloud :: PointCloud2 where
  "xyCloud = cloud 1 [byteField ''x'' 0, byteField ''y'' 1] 2 [1, 2, 3, 4, 5, 6]"

text \<open>Three points with \<open>x\<close>, \<open>y\<close> and an intensity of 0, 5 and 10.\<close>

definition intensityCloud :: PointCloud2 where
  "intensityCloud =
     cloud 2 [byteField ''x'' 0, byteField ''y'' 1, byteField ''intensity'' 2] 3
       [1, 1, 0, 2, 2, 5, 3, 3, 10]"

text \<open>Two points with \<open>x\<close>, \<open>y\<close> and a packed color named \<open>bgr\<close>.\<close>

definition bgrCloud :: PointCloud2 where
  "bgrCloud =
     cloud 5 [byteField ''x'' 0, byteField ''y'' 1, byteField ''bgr'' 2] 3
       [1, 1, 7, 2, 2, 9]"

text \<open>Three points with the single field \<open>x\<close>.\<close>

definition xOnlyCloud :: PointCloud2 where
  "xOnlyCloud = cloud 6 [byteField ''x'' 0] 1 [1, 2, 3]"

text \<open>Seven bytes of data for points of four bytes.\<close>

definition raggedCloud :: PointCloud2 where
  "raggedCloud = cloud 3 [byteField ''x'' 0, byteField ''y'' 1] 4 [1, 2, 3, 4, 5, 6, 7]"

text \<open>No data, and a point step of zero.\<close>

definition zeroStepCloud :: PointCloud2 where
  "zeroStepCloud = cloud 4 [byteField ''x'' 0, byteField ''y'' 1] 0 []"

text \<open>An empty collection on a fresh renderer, and the same after \<open>xyCloud\<close> on a topic.\<close>

definition emptyCollection :: "unit PointClouds" where
  "emptyCollection = PointClouds_new initialRenderer"

definition afterXY :: "unit PointClouds" where
  "afterXY = snd (addPointCloud2Message exampleGetReader exampleGetColorConverter
                    ''/points'' xyCloud emptyCollection)"

text \<open>The renderable built for \<open>xyCloud\<close>, before any update has run on it.\<close>

definition xyRenderable :: PointCloudRenderable where
  "xyRenderable = fst (newRenderable ''/points'' xyCloud 0 (materialCache initialRenderer))"







text \<open>
  A pose resolver that succeeds exactly for data in the render frame and then places
  the renderable at the identity pose; and a collection that holds \<open>xyRenderable\<close>
  (whose data is in the frame \<open>lidar\<close>) while both frames of the renderer are
  \<open>base_link\<close>.
\<close>

definition exampleUpdatePose :: "unit UpdatePose" where
  "exampleUpdatePose renderable tree rf ff frameId t src =
     (frameId = rf, if frameId = rf then renderable\<lparr>pose := makePose\<rparr> else renderable)"

definition framedCollection :: "unit PointClouds" where
  "framedCollection =
     emptyCollection
       \<lparr>renderer := initialRenderer\<lparr>fixedFrameId := Some ''base_link'',
                                      renderFrameId := Some ''base_link''\<rparr>,
        pointCloudsByTopic := [(''/points'', xyRenderable)]\<rparr>"

text \<open>The same collection while both frames of the renderer are \<open>lidar\<close>.\<close>

definition lidarCollection :: "unit PointClouds" where
  "lidarCollection =
     emptyCollection
       \<lparr>renderer := initialRenderer\<lparr>fixedFrameId := Some ''lidar'',
                                      renderFrameId := Some ''lidar''\<rparr>,
        pointCloudsByTopic := [(''/points'', xyRenderable)]\<rparr>"

section \<open>Renderer: theorems\<close>

lemma frameHandler_trace:
  "trace (frameHandler t r) =
     trace r @ [Emit ''startFrame'' t, ControlsUpdate, MaterialCacheUpdate,
                FrameAxesStartFrame t, MarkersStartFrame t, GlClear, GlRender,
                Emit ''endFrame'' t, GlInfoReset]"
  by (simp add: frameHandler_def perform_def Let_def)

lemma frameActions_eq:
  "frameActions t =
     [Emit ''startFrame'' t, ControlsUpdate, MaterialCacheUpdate,
      FrameAxesStartFrame t, MarkersStartFrame t, GlClear, GlRender,
      Emit ''endFrame'' t, GlInfoReset]"
  by (simp add: frameActions_def frameHandler_trace initialRenderer_def)

lemma animationFrame_undefined:
  "currentTime r = None \<Longrightarrow> animationFrame r = perform RequestAnimationFrame r"
  by (simp add: animationFrame_def perform_def Let_def)

lemma ticks_undefined:
  "currentTime r = None \<Longrightarrow>
     ticks n r = r\<lparr>trace := trace r @ replicate n RequestAnimationFrame\<rparr>"
proof (induction n arbitrary: r)
  case 0
  then show ?case by simp
next
  case (Suc n)
  let ?r1 = "perform RequestAnimationFrame r"
  have ct: "currentTime ?r1 = None"
    using Suc.prems by (simp add: perform_def)
  have "ticks (Suc n) r = ticks n ?r1"
    using Suc.prems by (simp add: animationFrame_undefined)
  also have "\<dots> = ?r1\<lparr>trace := trace ?r1 @ replicate n RequestAnimationFrame\<rparr>"
    using Suc.IH [OF ct] .
  also have "\<dots> = r\<lparr>trace := trace r @ replicate (Suc n) RequestAnimationFrame\<rparr>"
    by (simp add: perform_def replicate_app_Cons_same)
  finally show ?case .
qed

text \<open>
  C10. While \<open>currentTime\<close> is undefined, any number of animation-frame callbacks only
  re-schedule the callback: the trace grows by one \<open>RequestAnimationFrame\<close> per
  callback and by nothing else (no event is emitted, no collection's \<open>startFrame\<close> runs,
  nothing is cleared or rendered), and the frame ids stay as they were. Once
  \<open>currentTime\<close> is set to \<open>t\<close>, the very next callback re-schedules and then runs
  \<open>frameHandler t\<close>.
\<close>

theorem C10_no_frame_until_currentTime:
  "(currentTime r = None \<longrightarrow>
      trace (ticks n r) = trace r @ replicate n RequestAnimationFrame \<and>
      fixedFrameId (ticks n r) = fixedFrameId r \<and>
      renderFrameId (ticks n r) = renderFrameId r \<and>
      currentTime (ticks n r) = None) \<and>
   (currentTime r = Some t \<longrightarrow>
      animationFrame r = frameHandler t (perform RequestAnimationFrame r) \<and>
      trace (animationFrame r) = trace r @ RequestAnimationFrame # frameActions t)"
proof (intro conjI impI)
  assume u: "currentTime r = None"
  show "trace (ticks n r) = trace r @ replicate n RequestAnimationFrame"
    by (simp add: ticks_undefined [OF u])
  show "fixedFrameId (ticks n r) = fixedFrameId r"
    by (simp add: ticks_undefined [OF u])
  show "renderFrameId (ticks n r) = renderFrameId r"
    by (simp add: ticks_undefined [OF u])
  show "currentTime (ticks n r) = None"
    by (simp add: ticks_undefined [OF u] u)
next
  assume s: "currentTime r = Some t"
  show a: "animationFrame r = frameHandler t (perform RequestAnimationFrame r)"
    using s by (simp add: animationFrame_def perform_def Let_def)
  show "trace (animationFrame r) = trace r @ RequestAnimationFrame # frameActions t"
    unfolding a by (simp add: frameHandler_trace frameActions_eq perform_def)
qed

theorem C10_witness:
  "trace (ticks 3 initialRenderer)
     = [RequestAnimationFrame, RequestAnimationFrame, RequestAnimationFrame] \<and>
   trace (animationFrame (initialRenderer\<lparr>currentTime := Some 0\<rparr>))
     = [RequestAnimationFrame, Emit ''startFrame'' 0, ControlsUpdate,
        MaterialCacheUpdate, FrameAxesStartFrame 0, MarkersStartFrame 0, GlClear,
        GlRender, Emit ''endFrame'' 0, GlInfoReset]"
proof -
  let ?u = "initialRenderer"
  let ?s = "initialRenderer\<lparr>currentTime := Some 0\<rparr>"
  have u: "currentTime ?u = None" by (simp add: initialRenderer_def)
  have s: "currentTime ?s = Some 0" by simp
  have tu: "trace ?u = []" and ts: "trace ?s = []"
    by (simp_all add: initialRenderer_def)
  have "trace (ticks 3 ?u) = trace ?u @ replicate 3 RequestAnimationFrame"
    using C10_no_frame_until_currentTime [of ?u 3 0] u by blast
  moreover have "trace (animationFrame ?s) = trace ?s @ RequestAnimationFrame # frameActions 0"
    using C10_no_frame_until_currentTime [of ?s 0 0] s by blast
  ultimately show ?thesis
    by (simp only: tu ts frameActions_eq numeral_3_eq_3 replicate.simps append.simps)
qed

text \<open>
  C8, as the code has it. One call of \<open>frameHandler\<close> performs these nine actions, once
  each and in this order: emit \<open>startFrame\<close>; update the controls; update the material
  cache; \<open>startFrame\<close> of the FrameAxes collection; \<open>startFrame\<close> of the Markers
  collection; clear; render; emit \<open>endFrame\<close>; reset the statistics of the WebGL context
  (\<open>gl.info.reset()\<close>). No step resets a per-topic error state, and the one reset
  there is comes after rendering and after the \<open>endFrame\<close> event.
\<close>

theorem C8_frame_sequence:
  "trace (frameHandler t rd) = trace rd @ frameActions t \<and>
   frameActions t =
     [Emit ''startFrame'' t, ControlsUpdate, MaterialCacheUpdate,
      FrameAxesStartFrame t, MarkersStartFrame t, GlClear, GlRender,
      Emit ''endFrame'' t, GlInfoReset]"
proof (intro conjI)
  show "trace (frameHandler t rd) = trace rd @ frameActions t"
    by (simp only: frameHandler_trace frameActions_eq)
  show "frameActions t =
     [Emit ''startFrame'' t, ControlsUpdate, MaterialCacheUpdate,
      FrameAxesStartFrame t, MarkersStartFrame t, GlClear, GlRender,
      Emit ''endFrame'' t, GlInfoReset]"
    by (rule frameActions_eq)
qed

text \<open>
  C8 as stated fails: in the frame at time 0 the only action between the collections'
  \<open>startFrame\<close> (position 4) and the rendering (position 6) is the clearing of the
  canvas; the only reset is that of the WebGL statistics, at position 8, after the
  rendering and after the \<open>endFrame\<close> event (position 7), which therefore is not the
  last action of the tick.
\<close>

theorem C8_counterexample:
  "frameActions 0 ! 4 = MarkersStartFrame 0 \<and>
   frameActions 0 ! 5 = GlClear \<and>
   firstIndex GlRender (frameActions 0) = Some 6 \<and>
   firstIndex (Emit ''endFrame'' 0) (frameActions 0) = Some 7 \<and>
   firstIndex GlInfoReset (frameActions 0) = Some 8 \<and>
   length (frameActions 0) = 9 \<and>
   last (frameActions 0) \<noteq> Emit ''endFrame'' 0"
  by (simp add: frameActions_eq)

section \<open>RenderableSphere: theorems\<close>

lemma RenderableMarker_update_marker:
  "marker (RenderableMarker_update mk s) = mk"
  by (simp add: RenderableMarker_update_def Let_def)

lemma RenderableMarker_update_material:
  "mesh_material (RenderableMarker_update mk s) = mesh_material s"
  by (simp add: RenderableMarker_update_def Let_def)

lemma rgbaEqual_self: "rgbaEqual col col = numericColor col"
  by (auto simp: rgbaEqual_def strictEquals_def numericColor_def)

lemma RenderableSphere_update_numeric:
  assumes "numericColor (color mk)"
  shows "RenderableSphere_update sm rm mk (s, c) =
           ((RenderableMarker_update mk s)\<lparr>object_scale :=
               \<lparr>vec_x = vec_x (scale mk), vec_y = vec_y (scale mk),
                vec_z = vec_z (scale mk)\<rparr>\<rparr>, c)"
  using assms
  by (simp add: RenderableSphere_update_def RenderableMarker_update_marker Let_def
        rgbaEqual_self)

lemma RenderableSphere_update_NaN:
  assumes "\<not> numericColor (color mk)"
  shows "RenderableSphere_update sm rm mk (s, c) =
           ((RenderableMarker_update mk s)\<lparr>mesh_material := fst (sm mk (rm mk c)),
               object_scale :=
               \<lparr>vec_x = vec_x (scale mk), vec_y = vec_y (scale mk),
                vec_z = vec_z (scale mk)\<rparr>\<rparr>, snd (sm mk (rm mk c)))"
  using assms
  by (simp add: RenderableSphere_update_def RenderableMarker_update_marker Let_def
        rgbaEqual_self split_beta)

lemma updates_keep_material:
  assumes "\<forall>m \<in> set mks. numericColor (color m)"
  shows "mesh_material (fst (updates sm rm mks (s, c))) = mesh_material s \<and>
         snd (updates sm rm mks (s, c)) = c"
  using assms
proof (induction mks arbitrary: s)
  case Nil
  show ?case by simp
next
  case (Cons mk mks)
  have step: "RenderableSphere_update sm rm mk (s, c) =
           ((RenderableMarker_update mk s)\<lparr>object_scale :=
               \<lparr>vec_x = vec_x (scale mk), vec_y = vec_y (scale mk),
                vec_z = vec_z (scale mk)\<rparr>\<rparr>, c)"
    using Cons.prems by (intro RenderableSphere_update_numeric) simp
  have rest: "\<forall>m \<in> set mks. numericColor (color m)"
    using Cons.prems by simp
  show ?case
    by (simp add: step Cons.IH [OF rest] RenderableMarker_update_material)
qed

text \<open>
  C9, as the code has it. After \<open>super.update\<close> the guard compares the color of \<open>m\<close>
  with the color of \<open>this.marker\<close>, which is \<open>m\<close>. For a marker whose color has no
  NaN channel the comparison holds, and \<open>update(m)\<close> does not replace the material of
  the mesh and does not touch the material cache, whatever the color of the marker
  held before; hence, after the constructor and any sequence of updates with such
  markers, the material is still the one the constructor acquired. For a marker whose
  color has a NaN channel the comparison of the color with itself fails, and
  \<open>update(m)\<close> releases and takes the material for \<open>m\<close>.
\<close>

theorem C9_material_kept:
  "(numericColor (color mk) \<longrightarrow>
      marker (fst (RenderableSphere_update standardMaterial releaseStandardMaterial
                     mk (s, c))) = mk \<and>
      mesh_material (fst (RenderableSphere_update standardMaterial releaseStandardMaterial
                     mk (s, c))) = mesh_material s \<and>
      snd (RenderableSphere_update standardMaterial releaseStandardMaterial mk (s, c)) = c) \<and>
   ((\<forall>m \<in> set (mk0 # mks). numericColor (color m)) \<longrightarrow>
      mesh_material (fst (updates standardMaterial releaseStandardMaterial mks
          (RenderableSphere_new standardMaterial releaseStandardMaterial
             getMarkerId topicName mk0 c0)))
        = fst (standardMaterial mk0 c0)) \<and>
   (\<not> numericColor (color mk) \<longrightarrow>
      mesh_material (fst (RenderableSphere_update standardMaterial releaseStandardMaterial
                     mk (s, c)))
        = fst (standardMaterial mk (releaseStandardMaterial mk c)) \<and>
      snd (RenderableSphere_update standardMaterial releaseStandardMaterial mk (s, c))
        = snd (standardMaterial mk (releaseStandardMaterial mk c)))"
proof -
  have one: "marker (fst (RenderableSphere_update standardMaterial releaseStandardMaterial
                     mk (s, c))) = mk \<and>
      mesh_material (fst (RenderableSphere_update standardMaterial releaseStandardMaterial
                     mk (s, c))) = mesh_material s \<and>
      snd (RenderableSphere_update standardMaterial releaseStandardMaterial mk (s, c)) = c"
    if "numericColor (color mk)"
    by (simp add: RenderableSphere_update_numeric [OF that] RenderableMarker_update_marker
          RenderableMarker_update_material)
  have many: "mesh_material (fst (updates standardMaterial releaseStandardMaterial mks
          (RenderableSphere_new standardMaterial releaseStandardMaterial
             getMarkerId topicName mk0 c0)))
        = fst (standardMaterial mk0 c0)"
    if a: "\<forall>m \<in> set (mk0 # mks). numericColor (color m)"
  proof -
    have n0: "numericColor (color mk0)" and rest: "\<forall>m \<in> set mks. numericColor (color m)"
      using a by simp_all
    obtain mat c1 where sm0: "standardMaterial mk0 c0 = (mat, c1)"
      by (cases "standardMaterial mk0 c0")
    obtain s1 where new: "RenderableSphere_new standardMaterial
          releaseStandardMaterial getMarkerId topicName mk0 c0 = (s1, c1)"
        and mat1: "mesh_material s1 = mat"
      by (simp add: RenderableSphere_new_def sm0 RenderableSphere_update_numeric [OF n0]
            RenderableMarker_update_material)
    have "mesh_material (fst (updates standardMaterial releaseStandardMaterial mks
              (s1, c1))) = mesh_material s1"
      using updates_keep_material [OF rest, of standardMaterial releaseStandardMaterial
              s1 c1] by simp
    then show ?thesis
      by (simp add: new mat1 sm0)
  qed
  have other: "mesh_material (fst (RenderableSphere_update standardMaterial
                     releaseStandardMaterial mk (s, c)))
        = fst (standardMaterial mk (releaseStandardMaterial mk c)) \<and>
      snd (RenderableSphere_update standardMaterial releaseStandardMaterial mk (s, c))
        = snd (standardMaterial mk (releaseStandardMaterial mk c))"
    if "\<not> numericColor (color mk)"
    by (simp add: RenderableSphere_update_NaN [OF that])
  show ?thesis
    using one many other by blast
qed

lemma sphere_examples:
  "color (sphereMarker t col) = col"
  "numericColor (rgba r0 g0 b0 a0)"
  "\<not> numericColor nanColor"
  by (simp_all add: sphereMarker_def numericColor_def rgba_def nanColor_def)

lemma red_sphere:
  "mesh_material (fst (RenderableSphere_new materialOfColor releaseCounted exampleMarkerId
      ''/spheres'' (sphereMarker 1 (rgba 1 0 0 1)) 0)) = rgba 1 0 0 1"
  "snd (RenderableSphere_new materialOfColor releaseCounted exampleMarkerId
      ''/spheres'' (sphereMarker 1 (rgba 1 0 0 1)) 0) = 1"
  by (simp_all add: RenderableSphere_new_def materialOfColor_def
        RenderableSphere_update_numeric sphere_examples RenderableMarker_update_material)

text \<open>
  C9 as stated fails: a sphere built for a red marker is updated with a marker whose
  red channel is NaN; the material of the mesh is then the one made for that marker,
  not the red one acquired at construction.
\<close>

theorem C9_counterexample:
  "mesh_material (fst (RenderableSphere_new materialOfColor releaseCounted exampleMarkerId
      ''/spheres'' (sphereMarker 1 (rgba 1 0 0 1)) 0)) = rgba 1 0 0 1 \<and>
   mesh_material (fst (RenderableSphere_update materialOfColor releaseCounted
      (sphereMarker 2 nanColor)
      (RenderableSphere_new materialOfColor releaseCounted exampleMarkerId
         ''/spheres'' (sphereMarker 1 (rgba 1 0 0 1)) 0)))
     = nanColor \<and>
   nanColor \<noteq> rgba 1 0 0 1"
proof -
  let ?new = "RenderableSphere_new materialOfColor releaseCounted exampleMarkerId
                ''/spheres'' (sphereMarker 1 (rgba 1 0 0 1)) 0"
  have nn: "\<not> numericColor (color (sphereMarker 2 nanColor))"
    by (simp add: sphere_examples)
  have "RenderableSphere_update materialOfColor releaseCounted
          (sphereMarker 2 nanColor) (fst ?new, snd ?new) =
        ((RenderableMarker_update (sphereMarker 2 nanColor) (fst ?new))
           \<lparr>mesh_material := fst (materialOfColor (sphereMarker 2 nanColor)
                                    (releaseCounted (sphereMarker 2 nanColor) (snd ?new))),
            object_scale :=
               \<lparr>vec_x = vec_x (scale (sphereMarker 2 nanColor)),
                vec_y = vec_y (scale (sphereMarker 2 nanColor)),
                vec_z = vec_z (scale (sphereMarker 2 nanColor))\<rparr>\<rparr>,
         snd (materialOfColor (sphereMarker 2 nanColor)
                (releaseCounted (sphereMarker 2 nanColor) (snd ?new))))"
    by (rule RenderableSphere_update_NaN [OF nn])
  then have "mesh_material (fst (RenderableSphere_update materialOfColor releaseCounted
          (sphereMarker 2 nanColor) ?new)) = nanColor"
    by (simp add: materialOfColor_def sphere_examples)
  moreover have "nanColor \<noteq> rgba 1 0 0 1"
    by (simp add: nanColor_def rgba_def)
  ultimately show ?thesis
    using red_sphere(1) by blast
qed

text \<open>
  Witness: a sphere built for a red marker, then updated with a blue one. The material
  stays the red one and the cache still counts one material.
\<close>

theorem C9_witness:
  "mesh_material (fst (RenderableSphere_update materialOfColor releaseCounted
      (sphereMarker 2 (rgba 0 0 1 1))
      (RenderableSphere_new materialOfColor releaseCounted exampleMarkerId
         ''/spheres'' (sphereMarker 1 (rgba 1 0 0 1)) 0)))
     = rgba 1 0 0 1 \<and>
   color (marker (fst (RenderableSphere_update materialOfColor releaseCounted
      (sphereMarker 2 (rgba 0 0 1 1))
      (RenderableSphere_new materialOfColor releaseCounted exampleMarkerId
         ''/spheres'' (sphereMarker 1 (rgba 1 0 0 1)) 0))))
     = rgba 0 0 1 1 \<and>
   snd (RenderableSphere_update materialOfColor releaseCounted
      (sphereMarker 2 (rgba 0 0 1 1))
      (RenderableSphere_new materialOfColor releaseCounted exampleMarkerId
         ''/spheres'' (sphereMarker 1 (rgba 1 0 0 1)) 0))
     = 1 \<and>
   mesh_material (fst (updates materialOfColor releaseCounted
      [sphereMarker 2 (rgba 0 0 1 1), sphereMarker 3 (rgba 0 1 0 1)]
      (RenderableSphere_new materialOfColor releaseCounted exampleMarkerId
         ''/spheres'' (sphereMarker 1 (rgba 1 0 0 1)) 0)))
     = rgba 1 0 0 1 \<and>
   mesh_material (fst (RenderableSphere_update materialOfColor releaseCounted
      (sphereMarker 2 nanColor)
      (RenderableSphere_new materialOfColor releaseCounted exampleMarkerId
         ''/spheres'' (sphereMarker 1 (rgba 1 0 0 1)) 0)))
     = nanColor"
proof -
  let ?red = "sphereMarker 1 (rgba 1 0 0 1)"
  let ?blue = "sphereMarker 2 (rgba 0 0 1 1)"
  let ?green = "sphereMarker 3 (rgba 0 1 0 1)"
  let ?nan = "sphereMarker 2 nanColor"
  let ?new = "RenderableSphere_new materialOfColor releaseCounted exampleMarkerId
                ''/spheres'' ?red 0"
  have pair: "(fst ?new, snd ?new) = ?new"
    by simp
  have nb: "numericColor (color ?blue)"
    and all: "\<forall>m \<in> set (?red # [?blue, ?green]). numericColor (color m)"
    and nn: "\<not> numericColor (color ?nan)"
    by (simp_all add: sphere_examples)
  note kept = C9_material_kept [of ?blue materialOfColor releaseCounted "fst ?new"
      "snd ?new" ?red "[?blue, ?green]" exampleMarkerId "''/spheres''" 0]
  note repl = C9_material_kept [of ?nan materialOfColor releaseCounted "fst ?new"
      "snd ?new" ?red "[]" exampleMarkerId "''/spheres''" 0]
  have one: "marker (fst (RenderableSphere_update materialOfColor releaseCounted
                     ?blue ?new)) = ?blue \<and>
      mesh_material (fst (RenderableSphere_update materialOfColor releaseCounted
                     ?blue ?new)) = mesh_material (fst ?new) \<and>
      snd (RenderableSphere_update materialOfColor releaseCounted ?blue ?new) = snd ?new"
    using kept nb unfolding pair by blast
  have many: "mesh_material (fst (updates materialOfColor releaseCounted [?blue, ?green]
                  ?new)) = fst (materialOfColor ?red 0)"
    using kept all by blast
  have other: "mesh_material (fst (RenderableSphere_update materialOfColor releaseCounted
                     ?nan ?new))
        = fst (materialOfColor ?nan (releaseCounted ?nan (snd ?new)))"
    using repl nn unfolding pair by blast
  have m: "color (marker (fst (RenderableSphere_update materialOfColor releaseCounted
                     ?blue ?new))) = rgba 0 0 1 1"
    using one by (simp add: sphere_examples)
  have mat: "mesh_material (fst (RenderableSphere_update materialOfColor
                       releaseCounted ?blue ?new)) = rgba 1 0 0 1"
    using one red_sphere(1) by simp
  have cache: "snd (RenderableSphere_update materialOfColor releaseCounted
                       ?blue ?new) = 1"
    using one red_sphere(2) by simp
  have many': "mesh_material (fst (updates materialOfColor releaseCounted [?blue, ?green]
                  ?new)) = rgba 1 0 0 1"
    using many by (simp add: materialOfColor_def sphere_examples)
  have other': "mesh_material (fst (RenderableSphere_update materialOfColor releaseCounted
                     ?nan ?new)) = nanColor"
    using other by (simp add: materialOfColor_def sphere_examples)
  show ?thesis
    using m mat cache many' other' by blast
qed

section \<open>Point clouds: rejected messages\<close>

lemma structuralError_iff:
  "(structuralError pc \<noteq> None) =
     (is_bigendian pc \<or> point_step pc = 0 \<or> \<not> point_step pc dvd length (data pc) \<or>
      pc_fields pc = [] \<or> length (data pc) < height pc * row_step pc \<or>
      row_step pc < width pc * point_step pc)"
  by (auto simp: structuralError_def remainder_nonzero_def dvd_eq_mod_eq_0)

lemma update_rejected:
  assumes "validatePointCloud gr (settings r) pc = Inl msg"
  shows "updatePointCloudRenderable gr gcc rd tc r pc =
           (case invalidPointCloudError rd
                   (r\<lparr>pointCloud := pc, srcTime := rosTimeToNanoSec (stamp (header pc))\<rparr>) msg of
              (cpl, rd', r') \<Rightarrow> (cpl, rd', tc, r'))"
  using assms by (simp add: updatePointCloudRenderable_def Let_def)

lemma update_rejected_result:
  assumes "validatePointCloud gr (settings r) pc = Inl msg"
  shows "updatePointCloudRenderable gr gcc rd tc r pc =
           (ThrewTypeError, rd, tc,
            r\<lparr>pointCloud := pc, srcTime := rosTimeToNanoSec (stamp (header pc))\<rparr>)"
  by (simp add: update_rejected [OF assms] invalidPointCloudError_def)

lemma validate_structural:
  "structuralError pc = Some msg \<Longrightarrow> validatePointCloud gr st pc = Inl msg"
  "structuralError pc = None \<Longrightarrow> validatePointCloud gr st pc = resolveReaders gr st pc"
  by (simp_all add: validatePointCloud_def)

lemma raggedCloud_structural:
  "structuralError raggedCloud = Some (DataLengthNotMultiple 7 4)"
  by (simp add: structuralError_def raggedCloud_def cloud_def remainder_nonzero_def)

lemma xyCloud_structural: "structuralError xyCloud = None"
  by (simp add: structuralError_def xyCloud_def cloud_def remainder_nonzero_def)

lemma zeroStepCloud_structural:
  "structuralError zeroStepCloud = Some (DataLengthNotMultiple 0 0)"
  by (simp add: structuralError_def zeroStepCloud_def cloud_def remainder_nonzero_def)

text \<open>
  C3, as the code has it. The chain of structural checks rejects a message exactly
  when it is big-endian, or its \<open>point_step\<close> is zero (the remainder of the data
  length is then NaN, which is not zero), or its data length is not a multiple of
  \<open>point_step\<close>, or it has no fields, or its data is shorter than
  \<open>height * row_step\<close>, or \<open>width * point_step\<close> exceeds \<open>row_step\<close>. A rejected
  message is handed to \<open>invalidPointCloudError\<close> and nothing of it is decoded: the
  geometry of the renderable and the scratch color are as before. A message none of
  the six conditions holds for goes on to the resolution of the readers.
\<close>

theorem C3_structural_validation:
  "((structuralError pc \<noteq> None) =
     (is_bigendian pc \<or> point_step pc = 0 \<or> \<not> point_step pc dvd length (data pc) \<or>
      pc_fields pc = [] \<or> length (data pc) < height pc * row_step pc \<or>
      row_step pc < width pc * point_step pc)) \<and>
   (structuralError pc = Some msg \<longrightarrow>
      validatePointCloud getReader (settings renderable) pc = Inl msg \<and>
      updatePointCloudRenderable getReader getColorConverter rd tc renderable pc =
        (case invalidPointCloudError rd
                (renderable\<lparr>pointCloud := pc,
                            srcTime := rosTimeToNanoSec (stamp (header pc))\<rparr>) msg of
           (cpl, rd', r') \<Rightarrow> (cpl, rd', tc, r')) \<and>
      geometry (snd (snd (snd (updatePointCloudRenderable getReader getColorConverter rd tc
                                 renderable pc)))) = geometry renderable \<and>
      fst (snd (snd (updatePointCloudRenderable getReader getColorConverter rd tc
                       renderable pc))) = tc) \<and>
   (structuralError pc = None \<longrightarrow>
      validatePointCloud getReader (settings renderable) pc =
        resolveReaders getReader (settings renderable) pc)"
proof -
  have one: "(structuralError pc \<noteq> None) =
     (is_bigendian pc \<or> point_step pc = 0 \<or> \<not> point_step pc dvd length (data pc) \<or>
      pc_fields pc = [] \<or> length (data pc) < height pc * row_step pc \<or>
      row_step pc < width pc * point_step pc)"
    by (rule structuralError_iff)
  have two: "validatePointCloud getReader (settings renderable) pc = Inl msg \<and>
      updatePointCloudRenderable getReader getColorConverter rd tc renderable pc =
        (case invalidPointCloudError rd
                (renderable\<lparr>pointCloud := pc,
                            srcTime := rosTimeToNanoSec (stamp (header pc))\<rparr>) msg of
           (cpl, rd', r') \<Rightarrow> (cpl, rd', tc, r')) \<and>
      geometry (snd (snd (snd (updatePointCloudRenderable getReader getColorConverter rd tc
                                 renderable pc)))) = geometry renderable \<and>
      fst (snd (snd (updatePointCloudRenderable getReader getColorConverter rd tc
                       renderable pc))) = tc"
    if e: "structuralError pc = Some msg"
  proof -
    have v: "validatePointCloud getReader (settings renderable) pc = Inl msg"
      using e by (rule validate_structural)
    have a: "updatePointCloudRenderable getReader getColorConverter rd tc renderable pc =
        (case invalidPointCloudError rd
                (renderable\<lparr>pointCloud := pc,
                            srcTime := rosTimeToNanoSec (stamp (header pc))\<rparr>) msg of
           (cpl, rd', r') \<Rightarrow> (cpl, rd', tc, r'))"
      by (rule update_rejected [OF v])
    have b: "geometry (snd (snd (snd (updatePointCloudRenderable getReader
                 getColorConverter rd tc renderable pc)))) = geometry renderable"
      by (simp add: update_rejected_result [OF v])
    have c: "fst (snd (snd (updatePointCloudRenderable getReader getColorConverter rd tc
                       renderable pc))) = tc"
      by (simp add: update_rejected_result [OF v])
    show ?thesis
      using v a b c by blast
  qed
  have three: "validatePointCloud getReader (settings renderable) pc =
        resolveReaders getReader (settings renderable) pc"
    if "structuralError pc = None"
    using that by (rule validate_structural)
  show ?thesis
    using one two three by blast
qed

text \<open>
  C3 as stated fails: \<open>zeroStepCloud\<close> is little-endian, its data length 0 is a
  multiple of its \<open>point_step\<close> 0, it has fields, its data is not shorter than
  \<open>height * row_step\<close> and \<open>width * point_step\<close> does not exceed \<open>row_step\<close>; it
  is rejected all the same.
\<close>

theorem C3_counterexample:
  "\<not> is_bigendian zeroStepCloud \<and>
   point_step zeroStepCloud dvd length (data zeroStepCloud) \<and>
   pc_fields zeroStepCloud \<noteq> [] \<and>
   \<not> length (data zeroStepCloud) < height zeroStepCloud * row_step zeroStepCloud \<and>
   \<not> row_step zeroStepCloud < width zeroStepCloud * point_step zeroStepCloud \<and>
   structuralError zeroStepCloud = Some (DataLengthNotMultiple 0 0)"
  by (simp add: zeroStepCloud_structural) (simp add: zeroStepCloud_def cloud_def)

lemma xyRenderable_fields:
  "topic xyRenderable = ''/points''"
  "pointCloud xyRenderable = xyCloud"
  "srcTime xyRenderable = 1000000000"
  by (simp_all add: xyRenderable_def newRenderable_def Let_def xyCloud_def cloud_def
        rosTimeToNanoSec_def)

text \<open>
  Witness: seven bytes for points of four bytes are rejected and the geometry of the
  renderable stays as it is; the three points of \<open>xyCloud\<close> pass.
\<close>

theorem C3_witness:
  "structuralError raggedCloud = Some (DataLengthNotMultiple 7 4) \<and>
   validatePointCloud exampleGetReader (settings xyRenderable) raggedCloud =
     Inl (DataLengthNotMultiple 7 4) \<and>
   geometry (snd (snd (snd (updatePointCloudRenderable exampleGetReader
       exampleGetColorConverter initialRenderer (rgba 0 0 0 0) xyRenderable raggedCloud))))
     = geometry xyRenderable \<and>
   structuralError xyCloud = None \<and>
   validatePointCloud exampleGetReader (settings xyRenderable) xyCloud =
     resolveReaders exampleGetReader (settings xyRenderable) xyCloud"
proof -
  have "validatePointCloud exampleGetReader (settings xyRenderable) raggedCloud =
          Inl (DataLengthNotMultiple 7 4) \<and>
        geometry (snd (snd (snd (updatePointCloudRenderable exampleGetReader
          exampleGetColorConverter initialRenderer (rgba 0 0 0 0) xyRenderable
          raggedCloud)))) = geometry xyRenderable"
    using C3_structural_validation [of raggedCloud "DataLengthNotMultiple 7 4"
            exampleGetReader xyRenderable exampleGetColorConverter initialRenderer
            "rgba 0 0 0 0"]
          raggedCloud_structural
    by blast
  moreover have "validatePointCloud exampleGetReader (settings xyRenderable) xyCloud =
     resolveReaders exampleGetReader (settings xyRenderable) xyCloud"
    using C3_structural_validation [of xyCloud "NoFields"
            exampleGetReader xyRenderable exampleGetColorConverter initialRenderer
            "rgba 0 0 0 0"]
          xyCloud_structural
    by blast
  ultimately show ?thesis
    using raggedCloud_structural xyCloud_structural by blast
qed

text \<open>
  C1, as the code has it. For a message that fails validation (a structural check, an
  \<open>x\<close>, \<open>y\<close>, \<open>z\<close> or color field without a reader, or fewer than two position
  readers), nothing of the message is decoded: the geometry of the renderable, with
  its position and color buffers, its settings, its topic and the scratch color are
  exactly what they were. The stored message and the source timestamp, however, are
  those of the rejected message, because they are assigned before the checks.
\<close>

theorem C1_rejected_message:
  assumes "validatePointCloud getReader (settings renderable) pc = Inl msg"
  shows "geometry (snd (snd (snd (updatePointCloudRenderable getReader getColorConverter
             rd tc renderable pc)))) = geometry renderable \<and>
         settings (snd (snd (snd (updatePointCloudRenderable getReader getColorConverter
             rd tc renderable pc)))) = settings renderable \<and>
         topic (snd (snd (snd (updatePointCloudRenderable getReader getColorConverter
             rd tc renderable pc)))) = topic renderable \<and>
         fst (snd (snd (updatePointCloudRenderable getReader getColorConverter
             rd tc renderable pc))) = tc \<and>
         pointCloud (snd (snd (snd (updatePointCloudRenderable getReader getColorConverter
             rd tc renderable pc)))) = pc \<and>
         srcTime (snd (snd (snd (updatePointCloudRenderable getReader getColorConverter
             rd tc renderable pc)))) = rosTimeToNanoSec (stamp (header pc))"
  by (simp add: update_rejected_result [OF assms])

lemma raggedCloud_validate:
  "validatePointCloud exampleGetReader (settings xyRenderable) raggedCloud =
     Inl (DataLengthNotMultiple 7 4)"
  by (simp add: validatePointCloud_def raggedCloud_structural)

lemma ragged_not_xy: "raggedCloud \<noteq> xyCloud"
  by (simp add: raggedCloud_def xyCloud_def cloud_def)

text \<open>
  C1 as stated fails: a renderable that holds \<open>xyCloud\<close>, stamped 1 s, receives
  \<open>raggedCloud\<close>, stamped 3 s, which is rejected; afterwards the renderable holds
  \<open>raggedCloud\<close> and the source time of 3 s.
\<close>

theorem C1_counterexample:
  "validatePointCloud exampleGetReader (settings xyRenderable) raggedCloud =
     Inl (DataLengthNotMultiple 7 4) \<and>
   pointCloud xyRenderable = xyCloud \<and>
   pointCloud (snd (snd (snd (updatePointCloudRenderable exampleGetReader
       exampleGetColorConverter initialRenderer (rgba 0 0 0 0) xyRenderable raggedCloud))))
     = raggedCloud \<and>
   raggedCloud \<noteq> xyCloud \<and>
   srcTime xyRenderable = 1000000000 \<and>
   srcTime (snd (snd (snd (updatePointCloudRenderable exampleGetReader
       exampleGetColorConverter initialRenderer (rgba 0 0 0 0) xyRenderable raggedCloud))))
     = 3000000000"
proof -
  have t: "rosTimeToNanoSec (stamp (header raggedCloud)) = 3000000000"
    by (simp add: raggedCloud_def cloud_def rosTimeToNanoSec_def)
  show ?thesis
    by (simp add: update_rejected_result [OF raggedCloud_validate] raggedCloud_validate
          xyRenderable_fields ragged_not_xy t)
qed

text \<open>Witness for C1 at the same rejected message.\<close>

theorem C1_witness:
  "geometry (snd (snd (snd (updatePointCloudRenderable exampleGetReader
       exampleGetColorConverter initialRenderer (rgba 0 0 0 0) xyRenderable raggedCloud))))
     = geometry xyRenderable \<and>
   pointCloud (snd (snd (snd (updatePointCloudRenderable exampleGetReader
       exampleGetColorConverter initialRenderer (rgba 0 0 0 0) xyRenderable raggedCloud))))
     = raggedCloud \<and>
   settings (snd (snd (snd (updatePointCloudRenderable exampleGetReader
       exampleGetColorConverter initialRenderer (rgba 0 0 0 0) xyRenderable raggedCloud))))
     = settings xyRenderable"
  using C1_rejected_message [OF raggedCloud_validate, of exampleGetColorConverter
          initialRenderer "rgba 0 0 0 0"]
  by blast

section \<open>Point clouds: the collection and the choice of the color field\<close>

lemma map_of_Map_set:
  "map_of (Map_set k v kvs) k' = (if k' = k then Some v else map_of kvs k')"
  by (induction kvs) auto

lemma keys_Map_set:
  "map fst (Map_set k v kvs) =
     (if k \<in> fst ` set kvs then map fst kvs else map fst kvs @ [k])"
  by (induction kvs) (auto simp: rev_image_eqI)

lemma update_keeps_settings:
  "settings (snd (snd (snd (updatePointCloudRenderable gr gcc rd tc r pc)))) = settings r"
  by (simp add: updatePointCloudRenderable_def invalidPointCloudError_def Let_def
        split: sum.splits)

lemma add_lookup_known:
  assumes "map_of (pointCloudsByTopic c) k = Some r"
  shows "map_of (pointCloudsByTopic (snd (addPointCloud2Message gr gcc k pc c))) k =
           Some (snd (snd (snd (updatePointCloudRenderable gr gcc (renderer c)
                                  (tempColor c) r pc))))"
  using assms by (simp add: addPointCloud2Message_def Let_def map_of_Map_set)

lemma add_lookup_new:
  assumes "map_of (pointCloudsByTopic c) k = None"
  shows "map_of (pointCloudsByTopic (snd (addPointCloud2Message gr gcc k pc c))) k =
           Some (snd (snd (snd (updatePointCloudRenderable gr gcc
                    ((renderer c)\<lparr>materialCache :=
                        snd (newRenderable k pc (nextId c) (materialCache (renderer c)))\<rparr>)
                    (tempColor c)
                    (fst (newRenderable k pc (nextId c) (materialCache (renderer c))))
                    pc))))"
  using assms by (simp add: addPointCloud2Message_def Let_def map_of_Map_set)

lemma newRenderable_settings:
  "settings (fst (newRenderable k pc i cache)) = autoSelectColorField initialSettings pc"
  by (simp add: newRenderable_def Let_def)

lemma selectColorField_none:
  "\<forall>g \<in> set fs. name g \<notin> COLOR_FIELDS \<Longrightarrow> selectColorField fs out = None"
  by (induction fs) auto

lemma selectColorField_first:
  "\<forall>g \<in> set pre. name g \<notin> COLOR_FIELDS \<Longrightarrow> name f \<in> COLOR_FIELDS \<Longrightarrow>
     selectColorField (pre @ f # post) out =
       Some (selectColorMode (name f) (out\<lparr>colorField := Some (name f)\<rparr>))"
  by (induction pre) auto

lemma selectIntensityField_none:
  "\<forall>g \<in> set fs. name g \<notin> INTENSITY_FIELDS \<Longrightarrow> selectIntensityField fs out = None"
  by (induction fs) auto

lemma selectIntensityField_first:
  "\<forall>g \<in> set pre. name g \<notin> INTENSITY_FIELDS \<Longrightarrow> name f \<in> INTENSITY_FIELDS \<Longrightarrow>
     selectIntensityField (pre @ f # post) out =
       Some (out\<lparr>colorField := Some (name f), colorMode := DEFAULT_COLOR_MODE\<rparr>)"
  by (induction pre) auto

lemma selectColorMode_table:
  "colorField (selectColorMode n out) = colorField out"
  "colorMode (selectColorMode n out) = (if n = ''rgb'' \<or> n = ''bgr'' then Rgb else Rgba)"
  "rgbByteOrder (selectColorMode n out) =
     (if n = ''bgr'' \<or> n = ''bgra'' then ''bgra''
      else if n = ''abgr'' then ''abgr'' else ''rgba'')"
  by (simp_all add: selectColorMode_def)

text \<open>
  C5. \<open>autoSelectColorField\<close> chooses the first field whose name is one of \<open>rgb\<close>,
  \<open>rgba\<close>, \<open>bgr\<close>, \<open>bgra\<close>, \<open>abgr\<close>, \<open>color\<close>, with the color mode and the byte
  order that go with the name (\<open>rgb\<close>: Rgb, rgba; \<open>bgr\<close>: Rgb, bgra; \<open>bgra\<close>: Rgba,
  bgra; \<open>abgr\<close>: Rgba, abgr; \<open>rgba\<close> and \<open>color\<close>: Rgba, rgba); when no field has
  such a name, the first field named \<open>intensity\<close> or \<open>i\<close>, with the default color
  mode; when there is none either, the first declared field, with the default color
  mode. The first message of a topic gives its renderable the settings so chosen; a
  later message of the topic leaves the settings of the renderable as they are.
\<close>

theorem C5_color_field_selection:
  "(pc_fields pc = pre @ f # post \<and> (\<forall>g \<in> set pre. name g \<notin> COLOR_FIELDS) \<and>
      name f \<in> COLOR_FIELDS \<longrightarrow>
        colorField (autoSelectColorField out pc) = Some (name f) \<and>
        colorMode (autoSelectColorField out pc) =
          (if name f = ''rgb'' \<or> name f = ''bgr'' then Rgb else Rgba) \<and>
        rgbByteOrder (autoSelectColorField out pc) =
          (if name f = ''bgr'' \<or> name f = ''bgra'' then ''bgra''
           else if name f = ''abgr'' then ''abgr'' else ''rgba'')) \<and>
   ((\<forall>g \<in> set (pc_fields pc). name g \<notin> COLOR_FIELDS) \<and>
      pc_fields pc = pre @ f # post \<and> (\<forall>g \<in> set pre. name g \<notin> INTENSITY_FIELDS) \<and>
      name f \<in> INTENSITY_FIELDS \<longrightarrow>
        autoSelectColorField out pc = out\<lparr>colorField := Some (name f), colorMode := Turbo\<rparr>) \<and>
   ((\<forall>g \<in> set (pc_fields pc). name g \<notin> COLOR_FIELDS \<and> name g \<notin> INTENSITY_FIELDS) \<and>
      pc_fields pc = f # post \<longrightarrow>
        autoSelectColorField out pc = out\<lparr>colorField := Some (name f), colorMode := Turbo\<rparr>) \<and>
   (map_of (pointCloudsByTopic c) topicName = None \<longrightarrow>
      map_option settings (map_of (pointCloudsByTopic
          (snd (addPointCloud2Message getReader getColorConverter topicName pc c))) topicName)
        = Some (autoSelectColorField initialSettings pc)) \<and>
   (map_of (pointCloudsByTopic c) topicName = Some renderable \<longrightarrow>
      map_option settings (map_of (pointCloudsByTopic
          (snd (addPointCloud2Message getReader getColorConverter topicName pc c))) topicName)
        = Some (settings renderable))"
proof (intro conjI impI)
  assume a: "pc_fields pc = pre @ f # post \<and> (\<forall>g \<in> set pre. name g \<notin> COLOR_FIELDS) \<and>
      name f \<in> COLOR_FIELDS"
  have sel: "autoSelectColorField out pc =
          selectColorMode (name f) (out\<lparr>colorField := Some (name f)\<rparr>)"
    using a by (simp add: autoSelectColorField_def selectColorField_first)
  show "colorField (autoSelectColorField out pc) = Some (name f)"
    by (simp add: sel selectColorMode_table)
  show "colorMode (autoSelectColorField out pc) =
          (if name f = ''rgb'' \<or> name f = ''bgr'' then Rgb else Rgba)"
    by (simp only: sel selectColorMode_table)
  show "rgbByteOrder (autoSelectColorField out pc) =
          (if name f = ''bgr'' \<or> name f = ''bgra'' then ''bgra''
           else if name f = ''abgr'' then ''abgr'' else ''rgba'')"
    by (simp only: sel selectColorMode_table)
next
  assume b: "(\<forall>g \<in> set (pc_fields pc). name g \<notin> COLOR_FIELDS) \<and>
      pc_fields pc = pre @ f # post \<and> (\<forall>g \<in> set pre. name g \<notin> INTENSITY_FIELDS) \<and>
      name f \<in> INTENSITY_FIELDS"
  have n: "selectColorField (pc_fields pc) out = None"
    using b by (intro selectColorField_none) blast
  have i: "selectIntensityField (pc_fields pc) out =
             Some (out\<lparr>colorField := Some (name f), colorMode := DEFAULT_COLOR_MODE\<rparr>)"
    using b by (simp add: selectIntensityField_first)
  show "autoSelectColorField out pc = out\<lparr>colorField := Some (name f), colorMode := Turbo\<rparr>"
    by (simp add: autoSelectColorField_def n i DEFAULT_COLOR_MODE_def)
next
  assume d: "(\<forall>g \<in> set (pc_fields pc). name g \<notin> COLOR_FIELDS \<and> name g \<notin> INTENSITY_FIELDS) \<and>
      pc_fields pc = f # post"
  have n: "selectColorField (pc_fields pc) out = None"
    using d by (intro selectColorField_none) blast
  have i: "selectIntensityField (pc_fields pc) out = None"
    using d by (intro selectIntensityField_none) blast
  have l: "pc_fields pc = f # post"
    using d by blast
  show "autoSelectColorField out pc = out\<lparr>colorField := Some (name f), colorMode := Turbo\<rparr>"
    unfolding autoSelectColorField_def n i by (simp add: l DEFAULT_COLOR_MODE_def)
next
  assume "map_of (pointCloudsByTopic c) topicName = None"
  then show "map_option settings (map_of (pointCloudsByTopic
          (snd (addPointCloud2Message getReader getColorConverter topicName pc c))) topicName)
        = Some (autoSelectColorField initialSettings pc)"
    by (simp add: add_lookup_new update_keeps_settings newRenderable_settings)
next
  assume "map_of (pointCloudsByTopic c) topicName = Some renderable"
  then show "map_option settings (map_of (pointCloudsByTopic
          (snd (addPointCloud2Message getReader getColorConverter topicName pc c))) topicName)
        = Some (settings renderable)"
    by (simp add: add_lookup_known update_keeps_settings)
qed


lemma example_fields:
  "pc_fields xyCloud = [byteField ''x'' 0, byteField ''y'' 1]"
  "pc_fields intensityCloud = [byteField ''x'' 0, byteField ''y'' 1, byteField ''intensity'' 2]"
  "pc_fields bgrCloud = [byteField ''x'' 0, byteField ''y'' 1, byteField ''bgr'' 2]"
  "name (byteField n off) = n"
  by (simp_all add: xyCloud_def intensityCloud_def bgrCloud_def cloud_def byteField_def)

text \<open>
  Witness: the three ways of choosing, on \<open>bgrCloud\<close>, \<open>intensityCloud\<close> and
  \<open>xyCloud\<close>; and a topic that started with \<open>xyCloud\<close> keeps \<open>x\<close> as its color field
  when \<open>intensityCloud\<close> arrives on it.
\<close>

theorem C5_witness:
  "colorField (autoSelectColorField initialSettings bgrCloud) = Some ''bgr'' \<and>
   colorMode (autoSelectColorField initialSettings bgrCloud) = Rgb \<and>
   rgbByteOrder (autoSelectColorField initialSettings bgrCloud) = ''bgra'' \<and>
   autoSelectColorField initialSettings intensityCloud =
     initialSettings\<lparr>colorField := Some ''intensity'', colorMode := Turbo\<rparr> \<and>
   autoSelectColorField initialSettings xyCloud =
     initialSettings\<lparr>colorField := Some ''x'', colorMode := Turbo\<rparr> \<and>
   map_option settings (map_of (pointCloudsByTopic afterXY) ''/points'') =
     Some (initialSettings\<lparr>colorField := Some ''x'', colorMode := Turbo\<rparr>) \<and>
   map_option settings (map_of (pointCloudsByTopic
       (snd (addPointCloud2Message exampleGetReader exampleGetColorConverter ''/points''
               intensityCloud afterXY))) ''/points'') =
     Some (initialSettings\<lparr>colorField := Some ''x'', colorMode := Turbo\<rparr>)"
proof -
  let ?x = "byteField ''x'' 0" and ?y = "byteField ''y'' 1"
  let ?gr = exampleGetReader and ?gcc = exampleGetColorConverter
  have bgr: "pc_fields bgrCloud = [?x, ?y] @ byteField ''bgr'' 2 # [] \<and>
      (\<forall>g \<in> set [?x, ?y]. name g \<notin> COLOR_FIELDS) \<and>
      name (byteField ''bgr'' 2) \<in> COLOR_FIELDS"
    by (simp add: example_fields COLOR_FIELDS_def)
  have int: "(\<forall>g \<in> set (pc_fields intensityCloud). name g \<notin> COLOR_FIELDS) \<and>
      pc_fields intensityCloud = [?x, ?y] @ byteField ''intensity'' 2 # [] \<and>
      (\<forall>g \<in> set [?x, ?y]. name g \<notin> INTENSITY_FIELDS) \<and>
      name (byteField ''intensity'' 2) \<in> INTENSITY_FIELDS"
    by (simp add: example_fields COLOR_FIELDS_def INTENSITY_FIELDS_def)
  have xy: "(\<forall>g \<in> set (pc_fields xyCloud).
        name g \<notin> COLOR_FIELDS \<and> name g \<notin> INTENSITY_FIELDS) \<and>
      pc_fields xyCloud = ?x # [?y]"
    by (simp add: example_fields COLOR_FIELDS_def INTENSITY_FIELDS_def)
  have empty: "map_of (pointCloudsByTopic emptyCollection) ''/points'' = None"
    by (simp add: emptyCollection_def PointClouds_new_def)
  have a: "colorField (autoSelectColorField initialSettings bgrCloud) = Some ''bgr'' \<and>
     colorMode (autoSelectColorField initialSettings bgrCloud) = Rgb \<and>
     rgbByteOrder (autoSelectColorField initialSettings bgrCloud) = ''bgra''"
    using C5_color_field_selection [of bgrCloud "[?x, ?y]" "byteField ''bgr'' 2" "[]"
            initialSettings emptyCollection "''/points''" ?gr ?gcc xyRenderable] bgr
    by (simp add: example_fields)
  have b: "autoSelectColorField initialSettings intensityCloud =
     initialSettings\<lparr>colorField := Some ''intensity'', colorMode := Turbo\<rparr>"
    using C5_color_field_selection [of intensityCloud "[?x, ?y]"
            "byteField ''intensity'' 2" "[]"
            initialSettings emptyCollection "''/points''" ?gr ?gcc xyRenderable] int
    by (simp add: example_fields)
  have c: "autoSelectColorField initialSettings xyCloud =
     initialSettings\<lparr>colorField := Some ''x'', colorMode := Turbo\<rparr>"
    using C5_color_field_selection [of xyCloud "[]" ?x "[?y]"
            initialSettings emptyCollection "''/points''" ?gr ?gcc xyRenderable] xy
    by (simp add: example_fields)
  have d: "map_option settings (map_of (pointCloudsByTopic afterXY) ''/points'') =
     Some (autoSelectColorField initialSettings xyCloud)"
    unfolding afterXY_def
    using C5_color_field_selection [of xyCloud "[]" ?x "[?y]"
            initialSettings emptyCollection "''/points''" ?gr ?gcc xyRenderable] empty
    by blast
  then obtain r where r: "map_of (pointCloudsByTopic afterXY) ''/points'' = Some r"
      and sr: "settings r = autoSelectColorField initialSettings xyCloud"
    by auto
  have e: "map_option settings (map_of (pointCloudsByTopic
       (snd (addPointCloud2Message ?gr ?gcc ''/points'' intensityCloud afterXY)))
       ''/points'') = Some (settings r)"
    using C5_color_field_selection [of intensityCloud "[?x, ?y]"
            "byteField ''intensity'' 2" "[]"
            initialSettings afterXY "''/points''" ?gr ?gcc r] r
    by blast
  show ?thesis
    using a b c d e by (simp add: sr)
qed

section \<open>Point clouds: the start of a frame\<close>

text \<open>What \<open>updatePose\<close> answers for a renderable, and what it makes of its entry.\<close>

lemma poseLoop_all_succeed:
  assumes "\<forall>kr \<in> set kvs. fst (u (snd kr) tree rf ff
                (frame_id (header (pointCloud (snd kr)))) t (srcTime (snd kr)))"
  shows "poseLoop u tree rf ff t kvs =
           (Returned,
            map (\<lambda>kr. (fst kr, snd (u (snd kr) tree rf ff
                    (frame_id (header (pointCloud (snd kr)))) t (srcTime (snd kr))))) kvs)"
  using assms by (induction kvs) (auto simp: Let_def)

lemma poseLoop_first_failure:
  assumes "\<forall>kr \<in> set pre. fst (u (snd kr) tree rf ff
                (frame_id (header (pointCloud (snd kr)))) t (srcTime (snd kr)))"
    and "\<not> fst (u r tree rf ff (frame_id (header (pointCloud r))) t (srcTime r))"
  shows "poseLoop u tree rf ff t (pre @ (k, r) # post) =
           (ThrewTypeError,
            map (\<lambda>kr. (fst kr, snd (u (snd kr) tree rf ff
                    (frame_id (header (pointCloud (snd kr)))) t (srcTime (snd kr))))) pre @
            (k, snd (u r tree rf ff (frame_id (header (pointCloud r))) t (srcTime r))) # post)"
  using assms by (induction pre) (auto simp: Let_def)

lemma startFrame_set:
  assumes "renderFrameId (renderer c) = Some rf" "fixedFrameId (renderer c) = Some ff"
    and "rf \<noteq> []" "ff \<noteq> []"
  shows "startFrame u t c =
           (fst (poseLoop u (transformTree (renderer c)) rf ff t (pointCloudsByTopic c)),
            c\<lparr>pointCloudsByTopic :=
                 snd (poseLoop u (transformTree (renderer c)) rf ff t
                        (pointCloudsByTopic c))\<rparr>)"
  using assms by (simp add: startFrame_def falsy_def Let_def)

lemma startFrame_unset:
  "falsy (renderFrameId (renderer c)) \<or> falsy (fixedFrameId (renderer c)) \<Longrightarrow>
     startFrame u t c = (Returned, c)"
  by (simp add: startFrame_def)

text \<open>
  C2 on the code. With the render frame and the fixed frame both set (to non-empty
  names, which is what the guard tests), \<open>startFrame\<close> hands the renderables to
  \<open>updatePose\<close> in the order of the Map, each with the transform tree, the two
  frames, the frame of its message, the current time and its own source time. While
  \<open>updatePose\<close> answers true it goes on, and it returns when all have answered true.
  At the first renderable for which \<open>updatePose\<close> answers false the call ends in a
  TypeError, because the diagnostic is to be recorded through
  \<open>renderer.layerErrors\<close>, which the Renderer does not have: the renderer, with its
  diagnostic sink, is as before, and the renderables after that one are not handed to
  \<open>updatePose\<close>.
\<close>

theorem C2_startFrame_throws:
  assumes "renderFrameId (renderer c) = Some rf" and "fixedFrameId (renderer c) = Some ff"
    and "rf \<noteq> []" and "ff \<noteq> []"
  shows
  "((\<forall>kr \<in> set (pointCloudsByTopic c).
       fst (updatePose (snd kr) (transformTree (renderer c)) rf ff
              (frame_id (header (pointCloud (snd kr)))) t (srcTime (snd kr)))) \<longrightarrow>
    startFrame updatePose t c =
      (Returned,
       c\<lparr>pointCloudsByTopic :=
           map (\<lambda>kr. (fst kr, snd (updatePose (snd kr) (transformTree (renderer c)) rf ff
                    (frame_id (header (pointCloud (snd kr)))) t (srcTime (snd kr)))))
             (pointCloudsByTopic c)\<rparr>)) \<and>
   (pointCloudsByTopic c = pre @ (k, renderable) # post \<and>
    (\<forall>kr \<in> set pre.
       fst (updatePose (snd kr) (transformTree (renderer c)) rf ff
              (frame_id (header (pointCloud (snd kr)))) t (srcTime (snd kr)))) \<and>
    \<not> fst (updatePose renderable (transformTree (renderer c)) rf ff
              (frame_id (header (pointCloud renderable))) t (srcTime renderable)) \<longrightarrow>
    startFrame updatePose t c =
      (ThrewTypeError,
       c\<lparr>pointCloudsByTopic :=
           map (\<lambda>kr. (fst kr, snd (updatePose (snd kr) (transformTree (renderer c)) rf ff
                    (frame_id (header (pointCloud (snd kr)))) t (srcTime (snd kr))))) pre @
           (k, snd (updatePose renderable (transformTree (renderer c)) rf ff
                      (frame_id (header (pointCloud renderable))) t (srcTime renderable)))
           # post\<rparr>) \<and>
    topicErrors (renderer (snd (startFrame updatePose t c))) = topicErrors (renderer c))"
proof -
  note sf = startFrame_set [OF assms, of updatePose t]
  have good: "startFrame updatePose t c =
      (Returned,
       c\<lparr>pointCloudsByTopic :=
           map (\<lambda>kr. (fst kr, snd (updatePose (snd kr) (transformTree (renderer c)) rf ff
                    (frame_id (header (pointCloud (snd kr)))) t (srcTime (snd kr)))))
             (pointCloudsByTopic c)\<rparr>)"
    if "\<forall>kr \<in> set (pointCloudsByTopic c).
       fst (updatePose (snd kr) (transformTree (renderer c)) rf ff
              (frame_id (header (pointCloud (snd kr)))) t (srcTime (snd kr)))"
    by (simp add: sf poseLoop_all_succeed [where u = updatePose
          and tree = "transformTree (renderer c)" and rf = rf and ff = ff and t = t
          and kvs = "pointCloudsByTopic c", OF that])
  have bad: "startFrame updatePose t c =
      (ThrewTypeError,
       c\<lparr>pointCloudsByTopic :=
           map (\<lambda>kr. (fst kr, snd (updatePose (snd kr) (transformTree (renderer c)) rf ff
                    (frame_id (header (pointCloud (snd kr)))) t (srcTime (snd kr))))) pre @
           (k, snd (updatePose renderable (transformTree (renderer c)) rf ff
                      (frame_id (header (pointCloud renderable))) t (srcTime renderable)))
           # post\<rparr>) \<and>
    topicErrors (renderer (snd (startFrame updatePose t c))) = topicErrors (renderer c)"
    if a: "pointCloudsByTopic c = pre @ (k, renderable) # post \<and>
    (\<forall>kr \<in> set pre.
       fst (updatePose (snd kr) (transformTree (renderer c)) rf ff
              (frame_id (header (pointCloud (snd kr)))) t (srcTime (snd kr)))) \<and>
    \<not> fst (updatePose renderable (transformTree (renderer c)) rf ff
              (frame_id (header (pointCloud renderable))) t (srcTime renderable))"
  proof -
    from a have l: "pointCloudsByTopic c = pre @ (k, renderable) # post"
      and p: "\<forall>kr \<in> set pre.
       fst (updatePose (snd kr) (transformTree (renderer c)) rf ff
              (frame_id (header (pointCloud (snd kr)))) t (srcTime (snd kr)))"
      and f: "\<not> fst (updatePose renderable (transformTree (renderer c)) rf ff
              (frame_id (header (pointCloud renderable))) t (srcTime renderable))"
      by blast+
    show ?thesis
      by (simp add: sf l poseLoop_first_failure [where u = updatePose
            and tree = "transformTree (renderer c)" and rf = rf and ff = ff and t = t
            and pre = pre and r = renderable and k = k and post = post, OF p f])
  qed
  show ?thesis
    using good bad by blast
qed

lemma xyRenderable_frame: "frame_id (header (pointCloud xyRenderable)) = ''lidar''"
  by (simp add: xyRenderable_def newRenderable_def Let_def xyCloud_def cloud_def)

text \<open>
  Witness: \<open>xyRenderable\<close> carries data of the frame \<open>lidar\<close>. With both frames of
  the renderer \<open>base_link\<close> the example resolver answers false, and \<open>startFrame\<close>
  throws and records nothing; with both frames \<open>lidar\<close> it answers true, and
  \<open>startFrame\<close> returns.
\<close>

theorem C2_witness:
  "fst (startFrame exampleUpdatePose 5 framedCollection) = ThrewTypeError \<and>
   topicErrors (renderer (snd (startFrame exampleUpdatePose 5 framedCollection)))
     (''/points'', ''MISSING_TRANSFORM'') = None \<and>
   fst (startFrame exampleUpdatePose 5 lidarCollection) = Returned"
proof -
  have rf: "renderFrameId (renderer framedCollection) = Some ''base_link''"
    and ff: "fixedFrameId (renderer framedCollection) = Some ''base_link''"
    and ne: "''base_link'' \<noteq> []"
    and rs: "pointCloudsByTopic framedCollection = [] @ (''/points'', xyRenderable) # []"
    and errs: "topicErrors (renderer framedCollection) = Map.empty"
    by (simp_all add: framedCollection_def initialRenderer_def)
  have rf': "renderFrameId (renderer lidarCollection) = Some ''lidar''"
    and ff': "fixedFrameId (renderer lidarCollection) = Some ''lidar''"
    and ne': "''lidar'' \<noteq> []"
    and rs': "pointCloudsByTopic lidarCollection = [(''/points'', xyRenderable)]"
    by (simp_all add: lidarCollection_def initialRenderer_def)
  have fails: "\<not> fst (exampleUpdatePose xyRenderable u ''base_link'' ''base_link''
                        (frame_id (header (pointCloud xyRenderable))) t src)"
    and works: "fst (exampleUpdatePose xyRenderable u ''lidar'' ''lidar''
                        (frame_id (header (pointCloud xyRenderable))) t src)" for u t src
    by (simp_all add: exampleUpdatePose_def xyRenderable_frame)
  have a: "fst (startFrame exampleUpdatePose 5 framedCollection) = ThrewTypeError \<and>
      topicErrors (renderer (snd (startFrame exampleUpdatePose 5 framedCollection)))
        = topicErrors (renderer framedCollection)"
    using C2_startFrame_throws [OF rf ff ne ne, of exampleUpdatePose 5 "[]" "''/points''"
            xyRenderable "[]"] rs fails
    by simp
  have b: "fst (startFrame exampleUpdatePose 5 lidarCollection) = Returned"
    using C2_startFrame_throws [OF rf' ff' ne' ne', of exampleUpdatePose 5 "[]" "''/points''"
            xyRenderable "[]"] works
    by (simp add: rs')
  show ?thesis
    using a b by (simp add: errs)
qed

section \<open>Point clouds: decoding\<close>

lemma forLoop_invariant:
  assumes "P i s"
    and "\<And>j s'. i \<le> j \<Longrightarrow> j < i + k \<Longrightarrow> P j s' \<Longrightarrow> P (Suc j) (body j s')"
  shows "P (i + k) (forLoop k i body s)"
  using assms
proof (induction k arbitrary: i s)
  case 0
  then show ?case by simp
next
  case (Suc k)
  have "P (Suc i) (body i s)"
    using Suc.prems by simp
  moreover have "\<And>j s'. Suc i \<le> j \<Longrightarrow> j < Suc i + k \<Longrightarrow> P j s' \<Longrightarrow> P (Suc j) (body j s')"
    using Suc.prems(2) by simp
  ultimately have "P (Suc i + k) (forLoop k (Suc i) body (body i s))"
    by (rule Suc.IH)
  then show ?case by simp
qed

lemma geometry_ok_new:
  "geometry_ok (geometry (fst (newRenderable k pc i cache)))"
  "itemCount (geometry (fst (newRenderable k pc i cache))) = 0"
  by (simp_all add: newRenderable_def Let_def geometry_ok_def createAttribute_def
        DynamicBufferGeometry_new_def newBuffer_def)

lemma geometry_ok_resize:
  assumes "geometry_ok g"
  shows "geometry_ok (resize n g)" and "itemCount (resize n g) = n"
  using assms by (auto simp: geometry_ok_def resize_def newBuffer_def)

text \<open>What the filling loop has established after \<open>j\<close> points.\<close>

lemma populate_invariant:
  fixes rs conv view step n
  defines "P \<equiv> \<lambda>j st3. itemSize (fst st3) = 3 \<and> length (array (fst st3)) = 3 * n \<and>
                  itemSize (fst (snd st3)) = 4 \<and> length (array (fst (snd st3))) = 4 * n \<and>
                  (\<forall>m < j. array (fst st3) ! (3 * m) = readX rs view (m * step) \<and>
                           array (fst st3) ! (3 * m + 1) = readY rs view (m * step) \<and>
                           array (fst st3) ! (3 * m + 2) = readZ rs view (m * step))"
  assumes "itemSize pa = 3" "length (array pa) = 3 * n"
    "itemSize ca = 4" "length (array ca) = 4 * n"
  shows "P n (forLoop n 0 (populatePoint rs conv view step) (pa, ca, tc))"
proof -
  have init: "P 0 (pa, ca, tc)"
    using assms by (simp add: P_def)
  have step: "P (Suc j) (populatePoint rs conv view step j st3)"
    if "j < 0 + n" "P j st3" for j st3
  proof -
    have sz: "itemSize (fst st3) = 3" "length (array (fst st3)) = 3 * n"
      and old: "\<And>m. m < j \<Longrightarrow> array (fst st3) ! (3 * m) = readX rs view (m * step) \<and>
                           array (fst st3) ! (3 * m + 1) = readY rs view (m * step) \<and>
                           array (fst st3) ! (3 * m + 2) = readZ rs view (m * step)"
      and szc: "itemSize (fst (snd st3)) = 4" "length (array (fst (snd st3))) = 4 * n"
      using that(2) by (simp_all add: P_def)
    have jn: "j < n" using that(1) by simp
    have "array (fst (populatePoint rs conv view step j st3)) ! (3 * m) = readX rs view (m * step) \<and>
          array (fst (populatePoint rs conv view step j st3)) ! (3 * m + 1) = readY rs view (m * step) \<and>
          array (fst (populatePoint rs conv view step j st3)) ! (3 * m + 2) = readZ rs view (m * step)"
      if "m < Suc j" for m
    proof (cases "m = j")
      case True
      then show ?thesis
        using jn sz by (simp add: populatePoint_def setXYZ_def Let_def nth_list_update)
    next
      case False
      then have mj: "m < j" using that by simp
      then have "3 * m + 2 < 3 * j" by simp
      then show ?thesis
        using old [OF mj] sz by (simp add: populatePoint_def setXYZ_def Let_def mult.commute)
    qed
    then show ?thesis
      using sz szc by (simp add: P_def populatePoint_def setXYZ_def setXYZW_def Let_def)
  qed
  from forLoop_invariant [where P = P and i = 0 and k = n, OF init step]
  show ?thesis by simp
qed


lemma update_decoded:
  fixes gr gcc rd tc r pc
  assumes v: "validatePointCloud gr (settings r) pc = Inr rs"
    and ok: "geometry_ok (geometry r)"
  defines "res \<equiv> updatePointCloudRenderable gr gcc rd tc r pc"
  shows "fst res = Returned"
    and "fst (snd res) = rd"
    and "geometry_ok (geometry (snd (snd (snd res))))"
    and "itemCount (geometry (snd (snd (snd res)))) = pointCount pc"
    and "allocations (geometry (snd (snd (snd res)))) =
           (if pointCount pc = itemCount (geometry r) then allocations (geometry r)
            else Suc (allocations (geometry r)))"
    and "geometry_id (geometry (snd (snd (snd res)))) = geometry_id (geometry r)"
    and "\<forall>i < pointCount pc.
           array (attr_position (geometry (snd (snd (snd res))))) ! (3 * i) =
             readX rs (data pc) (i * point_step pc) \<and>
           array (attr_position (geometry (snd (snd (snd res))))) ! (3 * i + 1) =
             readY rs (data pc) (i * point_step pc) \<and>
           array (attr_position (geometry (snd (snd (snd res))))) ! (3 * i + 2) =
             readZ rs (data pc) (i * point_step pc)"
proof -
  let ?n = "pointCount pc"
  let ?g = "resize ?n (geometry r)"
  let ?mm = "colorDomain (settings r) (readColor rs) (data pc) ?n (point_step pc)"
  let ?conv = "gcc (settings r) (fst ?mm) (snd ?mm)"
  let ?filled = "forLoop ?n 0 (populatePoint rs ?conv (data pc) (point_step pc))
                   (attr_position ?g, attr_color ?g, tc)"
  have gok: "geometry_ok ?g" and cnt: "itemCount ?g = ?n"
    using geometry_ok_resize [OF ok] by simp_all
  have res: "res = (Returned, rd, snd (snd ?filled),
      r\<lparr>pointCloud := pc, srcTime := rosTimeToNanoSec (stamp (header pc)),
        geometry := ?g\<lparr>attr_position := (fst ?filled)\<lparr>needsUpdate := True\<rparr>,
                        attr_color := (fst (snd ?filled))\<lparr>needsUpdate := True\<rparr>\<rparr>\<rparr>)"
    using v by (simp add: res_def updatePointCloudRenderable_def Let_def)
  have inv: "itemSize (fst ?filled) = 3 \<and> length (array (fst ?filled)) = 3 * ?n \<and>
        itemSize (fst (snd ?filled)) = 4 \<and> length (array (fst (snd ?filled))) = 4 * ?n \<and>
        (\<forall>m < ?n. array (fst ?filled) ! (3 * m) = readX rs (data pc) (m * point_step pc) \<and>
                 array (fst ?filled) ! (3 * m + 1) = readY rs (data pc) (m * point_step pc) \<and>
                 array (fst ?filled) ! (3 * m + 2) = readZ rs (data pc) (m * point_step pc))"
    using gok cnt by (intro populate_invariant) (simp_all add: geometry_ok_def)
  show "fst res = Returned" and "fst (snd res) = rd"
    by (simp_all add: res)
  show "geometry_ok (geometry (snd (snd (snd res))))"
    using inv cnt by (simp add: res geometry_ok_def)
  show "itemCount (geometry (snd (snd (snd res)))) = pointCount pc"
    using cnt by (simp add: res)
  show "allocations (geometry (snd (snd (snd res)))) =
           (if pointCount pc = itemCount (geometry r) then allocations (geometry r)
            else Suc (allocations (geometry r)))"
    by (simp add: res resize_def)
  show "geometry_id (geometry (snd (snd (snd res)))) = geometry_id (geometry r)"
    by (simp add: res resize_def)
  show "\<forall>i < pointCount pc.
           array (attr_position (geometry (snd (snd (snd res))))) ! (3 * i) =
             readX rs (data pc) (i * point_step pc) \<and>
           array (attr_position (geometry (snd (snd (snd res))))) ! (3 * i + 1) =
             readY rs (data pc) (i * point_step pc) \<and>
           array (attr_position (geometry (snd (snd (snd res))))) ! (3 * i + 2) =
             readZ rs (data pc) (i * point_step pc)"
    using inv by (simp add: res)
qed

text \<open>A reader variable that is bound after the scan was bound before or by a field.\<close>

lemma scanFields_bound:
  assumes "scanFields gr st step fs rs = Inr rs'"
  shows "(xReader rs' \<noteq> None \<longrightarrow>
            xReader rs \<noteq> None \<or> list_ex (\<lambda>f. name f = ''x'' \<and> gr f step \<noteq> None) fs) \<and>
         (yReader rs' \<noteq> None \<longrightarrow>
            yReader rs \<noteq> None \<or> list_ex (\<lambda>f. name f = ''y'' \<and> gr f step \<noteq> None) fs) \<and>
         (zReader rs' \<noteq> None \<longrightarrow>
            zReader rs \<noteq> None \<or> list_ex (\<lambda>f. name f = ''z'' \<and> gr f step \<noteq> None) fs)"
  using assms
proof (induction fs arbitrary: rs)
  case Nil
  then show ?case by simp
next
  case (Cons f fs)
  from Cons.prems obtain rs1 rs2 where
    b1: "bindPosition gr step f rs = Inr rs1" and
    b2: "bindColor gr st step f rs1 = Inr rs2" and
    rest: "allBound rs2 \<and> rs' = rs2 \<or> scanFields gr st step fs rs2 = Inr rs'"
    by (auto split: sum.splits if_splits)
  have p1: "(xReader rs1 \<noteq> None \<longrightarrow> xReader rs \<noteq> None \<or> (name f = ''x'' \<and> gr f step \<noteq> None)) \<and>
            (yReader rs1 \<noteq> None \<longrightarrow> yReader rs \<noteq> None \<or> (name f = ''y'' \<and> gr f step \<noteq> None)) \<and>
            (zReader rs1 \<noteq> None \<longrightarrow> zReader rs \<noteq> None \<or> (name f = ''z'' \<and> gr f step \<noteq> None))"
    using b1 by (auto simp: bindPosition_def split: if_splits option.splits)
  have p2: "xReader rs2 = xReader rs1 \<and> yReader rs2 = yReader rs1 \<and> zReader rs2 = zReader rs1"
    using b2 by (auto simp: bindColor_def split: if_splits option.splits)
  from rest show ?case
  proof
    assume "allBound rs2 \<and> rs' = rs2"
    then show ?thesis using p1 p2 by auto
  next
    assume "scanFields gr st step fs rs2 = Inr rs'"
    from Cons.IH [OF this] show ?thesis using p1 p2 by auto
  qed
qed

text \<open>A reader variable no field is named after is left as it was.\<close>

lemma scanFields_absent:
  assumes "scanFields gr st step fs rs = Inr rs'"
  shows "((\<forall>f \<in> set fs. name f \<noteq> ''x'') \<longrightarrow> xReader rs' = xReader rs) \<and>
         ((\<forall>f \<in> set fs. name f \<noteq> ''y'') \<longrightarrow> yReader rs' = yReader rs) \<and>
         ((\<forall>f \<in> set fs. name f \<noteq> ''z'') \<longrightarrow> zReader rs' = zReader rs)"
  using assms
proof (induction fs arbitrary: rs)
  case Nil
  then show ?case by simp
next
  case (Cons f fs)
  from Cons.prems obtain rs1 rs2 where
    b1: "bindPosition gr step f rs = Inr rs1" and
    b2: "bindColor gr st step f rs1 = Inr rs2" and
    rest: "allBound rs2 \<and> rs' = rs2 \<or> scanFields gr st step fs rs2 = Inr rs'"
    by (auto split: sum.splits if_splits)
  have p: "(name f \<noteq> ''x'' \<longrightarrow> xReader rs2 = xReader rs) \<and>
           (name f \<noteq> ''y'' \<longrightarrow> yReader rs2 = yReader rs) \<and>
           (name f \<noteq> ''z'' \<longrightarrow> zReader rs2 = zReader rs)"
    using b1 b2 by (auto simp: bindPosition_def bindColor_def split: if_splits option.splits)
  from rest show ?case
  proof
    assume "allBound rs2 \<and> rs' = rs2"
    then show ?thesis using p by auto
  next
    assume "scanFields gr st step fs rs2 = Inr rs'"
    from Cons.IH [OF this] show ?thesis using p by auto
  qed
qed


text \<open>A scan over fields named \<open>x\<close> or \<open>y\<close> that all have readers runs to the end.\<close>

lemma scanFields_xy:
  assumes "\<forall>f \<in> set fs. (name f = ''x'' \<or> name f = ''y'') \<and> gr f step \<noteq> None"
    and "zReader rs = None"
  shows "\<exists>rs'. scanFields gr st step fs rs = Inr rs' \<and> zReader rs' = None \<and>
           (xReader rs' \<noteq> None) = (xReader rs \<noteq> None \<or> list_ex (\<lambda>f. name f = ''x'') fs) \<and>
           (yReader rs' \<noteq> None) = (yReader rs \<noteq> None \<or> list_ex (\<lambda>f. name f = ''y'') fs)"
  using assms
proof (induction fs arbitrary: rs)
  case Nil
  then show ?case by simp
next
  case (Cons f fs)
  from Cons.prems(1) obtain rdr where rdr: "gr f step = Some rdr"
    and nm: "name f = ''x'' \<or> name f = ''y''"
    by auto
  have "\<exists>rs1. bindPosition gr step f rs = Inr rs1 \<and> zReader rs1 = None \<and>
          (xReader rs1 \<noteq> None) = (xReader rs \<noteq> None \<or> name f = ''x'') \<and>
          (yReader rs1 \<noteq> None) = (yReader rs \<noteq> None \<or> name f = ''y'')"
    using nm rdr Cons.prems(2) by (auto simp: bindPosition_def)
  then obtain rs1 where b1: "bindPosition gr step f rs = Inr rs1"
    and z1: "zReader rs1 = None"
    and x1: "(xReader rs1 \<noteq> None) = (xReader rs \<noteq> None \<or> name f = ''x'')"
    and y1: "(yReader rs1 \<noteq> None) = (yReader rs \<noteq> None \<or> name f = ''y'')"
    by blast
  have "\<exists>rs2. bindColor gr st step f rs1 = Inr rs2 \<and> zReader rs2 = None \<and>
          xReader rs2 = xReader rs1 \<and> yReader rs2 = yReader rs1"
    using rdr z1 by (simp add: bindColor_def)
  then obtain rs2 where b2: "bindColor gr st step f rs1 = Inr rs2"
    and z2: "zReader rs2 = None"
    and x2: "xReader rs2 = xReader rs1" and y2: "yReader rs2 = yReader rs1"
    by blast
  have nb: "\<not> allBound rs2"
    using z2 by (simp add: allBound_def)
  have rest: "\<forall>f \<in> set fs. (name f = ''x'' \<or> name f = ''y'') \<and> gr f step \<noteq> None"
    using Cons.prems(1) by simp
  from Cons.IH [OF rest z2] obtain rs' where
    r: "scanFields gr st step fs rs2 = Inr rs'" "zReader rs' = None"
       "(xReader rs' \<noteq> None) = (xReader rs2 \<noteq> None \<or> list_ex (\<lambda>f. name f = ''x'') fs)"
       "(yReader rs' \<noteq> None) = (yReader rs2 \<noteq> None \<or> list_ex (\<lambda>f. name f = ''y'') fs)"
    by blast
  have "scanFields gr st step (f # fs) rs = Inr rs'"
    by (simp add: b1 b2 nb r(1))
  then show ?case
    using r x1 y1 x2 y2 by auto
qed

lemma resolveReaders_xy:
  assumes "\<forall>f \<in> set (pc_fields pc).
             (name f = ''x'' \<or> name f = ''y'') \<and> gr f (point_step pc) \<noteq> None"
    and "list_ex (\<lambda>f. name f = ''x'') (pc_fields pc)"
    and "list_ex (\<lambda>f. name f = ''y'') (pc_fields pc)"
  shows "\<exists>rs. resolveReaders gr st pc = Inr rs \<and> readZ rs = zeroReader"
proof -
  have "zReader noReaders = None" by (simp add: noReaders_def)
  from scanFields_xy [where fs = "pc_fields pc" and gr = gr and step = "point_step pc"
        and rs = noReaders and st = st, OF assms(1) this]
  obtain rs' where
    r: "scanFields gr st (point_step pc) (pc_fields pc) noReaders = Inr rs'"
       "zReader rs' = None" "xReader rs' \<noteq> None" "yReader rs' \<noteq> None"
    using assms(2,3) by (auto simp: noReaders_def)
  have "positionReaderCount rs' = 2"
    using r by (simp add: positionReaderCount_def)
  then have "resolveReaders gr st pc = Inr (defaultReaders rs')"
    by (simp add: resolveReaders_def r(1))
  moreover have "readZ (defaultReaders rs') = zeroReader"
    using r(2) by (simp add: defaultReaders_def orElse_def)
  ultimately show ?thesis by blast
qed

lemma too_few_rejected:
  assumes "length (filter (resolves gr pc) [''x'', ''y'', ''z'']) < 2"
  shows "\<exists>msg. validatePointCloud gr st pc = Inl msg"
proof (cases "validatePointCloud gr st pc")
  case (Inl msg)
  then show ?thesis by blast
next
  case (Inr rs)
  then obtain rs' where sc: "scanFields gr st (point_step pc) (pc_fields pc) noReaders = Inr rs'"
    and cnt: "\<not> positionReaderCount rs' < 2"
    by (auto simp: validatePointCloud_def resolveReaders_def
          split: option.splits sum.splits if_splits)
  have none: "xReader noReaders = None" "yReader noReaders = None" "zReader noReaders = None"
    by (simp_all add: noReaders_def)
  from scanFields_bound [OF sc] have
    "(xReader rs' \<noteq> None \<longrightarrow> resolves gr pc ''x'') \<and>
     (yReader rs' \<noteq> None \<longrightarrow> resolves gr pc ''y'') \<and>
     (zReader rs' \<noteq> None \<longrightarrow> resolves gr pc ''z'')"
    by (simp add: none resolves_def)
  then have "2 \<le> length (filter (resolves gr pc) [''x'', ''y'', ''z''])"
    using cnt by (auto simp: positionReaderCount_def split: if_splits)
  then show ?thesis using assms by simp
qed

lemma absent_axis_zero:
  assumes "validatePointCloud gr st pc = Inr rs"
  shows "((\<forall>f \<in> set (pc_fields pc). name f \<noteq> ''x'') \<longrightarrow> readX rs = zeroReader) \<and>
         ((\<forall>f \<in> set (pc_fields pc). name f \<noteq> ''y'') \<longrightarrow> readY rs = zeroReader) \<and>
         ((\<forall>f \<in> set (pc_fields pc). name f \<noteq> ''z'') \<longrightarrow> readZ rs = zeroReader)"
proof -
  from assms obtain rs' where
    sc: "scanFields gr st (point_step pc) (pc_fields pc) noReaders = Inr rs'"
    and rs: "rs = defaultReaders rs'"
    by (auto simp: validatePointCloud_def resolveReaders_def
          split: option.splits sum.splits if_splits)
  from scanFields_absent [OF sc] show ?thesis
    by (auto simp: rs defaultReaders_def orElse_def noReaders_def)
qed

text \<open>
  C4. A message in which fewer than two of the axes \<open>x\<close>, \<open>y\<close>, \<open>z\<close> resolve is
  rejected: validation answers with an error and the update leaves the geometry of the
  renderable as it was. When a message is decoded,
  every axis that no field is named after is 0 at every point of the position buffer,
  which holds exactly \<open>pointCount\<close> points. In particular a message that passes the
  structural checks and whose fields are all named \<open>x\<close> or \<open>y\<close>, with both names
  present and a reader for every field, is decoded, and its position buffer has
  \<open>z = 0\<close> at every point.
\<close>

theorem C4_position_readers:
  fixes getReader getColorConverter rd tc renderable pc
  defines "res \<equiv> updatePointCloudRenderable getReader getColorConverter rd tc renderable pc"
  defines "positions \<equiv> array (attr_position (geometry (snd (snd (snd res)))))"
  shows
  "(length (filter (resolves getReader pc) [''x'', ''y'', ''z'']) < 2 \<longrightarrow>
      (\<exists>msg. validatePointCloud getReader (settings renderable) pc = Inl msg) \<and>
      geometry (snd (snd (snd res))) = geometry renderable) \<and>
   (validatePointCloud getReader (settings renderable) pc = Inr rs \<and>
    geometry_ok (geometry renderable) \<longrightarrow>
      fst res = Returned \<and> length positions = 3 * pointCount pc \<and>
      (\<forall>i < pointCount pc.
         ((\<forall>f \<in> set (pc_fields pc). name f \<noteq> ''x'') \<longrightarrow> positions ! (3 * i) = Finite 0) \<and>
         ((\<forall>f \<in> set (pc_fields pc). name f \<noteq> ''y'') \<longrightarrow> positions ! (3 * i + 1) = Finite 0) \<and>
         ((\<forall>f \<in> set (pc_fields pc). name f \<noteq> ''z'') \<longrightarrow> positions ! (3 * i + 2) = Finite 0))) \<and>
   (structuralError pc = None \<and>
    (\<forall>f \<in> set (pc_fields pc).
        (name f = ''x'' \<or> name f = ''y'') \<and> getReader f (point_step pc) \<noteq> None) \<and>
    list_ex (\<lambda>f. name f = ''x'') (pc_fields pc) \<and>
    list_ex (\<lambda>f. name f = ''y'') (pc_fields pc) \<and>
    geometry_ok (geometry renderable) \<longrightarrow>
      fst res = Returned \<and> length positions = 3 * pointCount pc \<and>
      (\<forall>i < pointCount pc. positions ! (3 * i + 2) = Finite 0))"
proof (intro conjI impI)
  assume "length (filter (resolves getReader pc) [''x'', ''y'', ''z'']) < 2"
  from too_few_rejected [OF this] obtain msg where
    v: "validatePointCloud getReader (settings renderable) pc = Inl msg"
    by blast
  show "\<exists>msg. validatePointCloud getReader (settings renderable) pc = Inl msg"
    using v by blast
  show "geometry (snd (snd (snd res))) = geometry renderable"
    by (simp add: res_def update_rejected_result [OF v])
next
  assume a: "validatePointCloud getReader (settings renderable) pc = Inr rs \<and>
    geometry_ok (geometry renderable)"
  then have v: "validatePointCloud getReader (settings renderable) pc = Inr rs"
    and ok: "geometry_ok (geometry renderable)"
    by simp_all
  note d = update_decoded [OF v ok, of getColorConverter rd tc, folded res_def]
  show "fst res = Returned"
    by (rule d(1))
  show "length positions = 3 * pointCount pc"
    using d(3,4) by (simp add: positions_def geometry_ok_def)
  show "\<forall>i < pointCount pc.
         ((\<forall>f \<in> set (pc_fields pc). name f \<noteq> ''x'') \<longrightarrow> positions ! (3 * i) = Finite 0) \<and>
         ((\<forall>f \<in> set (pc_fields pc). name f \<noteq> ''y'') \<longrightarrow> positions ! (3 * i + 1) = Finite 0) \<and>
         ((\<forall>f \<in> set (pc_fields pc). name f \<noteq> ''z'') \<longrightarrow> positions ! (3 * i + 2) = Finite 0)"
    using d(7) absent_axis_zero [OF v]
    by (simp add: positions_def zeroReader_def)
next
  assume a: "structuralError pc = None \<and>
    (\<forall>f \<in> set (pc_fields pc).
        (name f = ''x'' \<or> name f = ''y'') \<and> getReader f (point_step pc) \<noteq> None) \<and>
    list_ex (\<lambda>f. name f = ''x'') (pc_fields pc) \<and>
    list_ex (\<lambda>f. name f = ''y'') (pc_fields pc) \<and>
    geometry_ok (geometry renderable)"
  then have ok: "geometry_ok (geometry renderable)" by simp
  from a resolveReaders_xy [of pc getReader "settings renderable"] obtain rs' where
    v: "validatePointCloud getReader (settings renderable) pc = Inr rs'"
    and z: "readZ rs' = zeroReader"
    by (auto simp: validatePointCloud_def)
  note d = update_decoded [OF v ok, of getColorConverter rd tc, folded res_def]
  show "fst res = Returned"
    by (rule d(1))
  show "length positions = 3 * pointCount pc"
    using d(3,4) by (simp add: positions_def geometry_ok_def)
  show "\<forall>i < pointCount pc. positions ! (3 * i + 2) = Finite 0"
    using d(7) by (simp add: positions_def z zeroReader_def)
qed


lemma xyCloud_facts:
  "point_step xyCloud = 2"
  "pointCount xyCloud = 3"
  "data xyCloud = [1, 2, 3, 4, 5, 6]"
  by (simp_all add: xyCloud_def cloud_def pointCount_def)

lemma xyRenderable_geometry_ok: "geometry_ok (geometry xyRenderable)"
  unfolding xyRenderable_def by (rule geometry_ok_new)

text \<open>
  Witness: the three points of \<open>xyCloud\<close> are decoded with \<open>z = 0\<close>; \<open>xOnlyCloud\<close>,
  where only \<open>x\<close> resolves, is rejected and leaves the geometry as it was.
\<close>

theorem C4_witness:
  "fst (updatePointCloudRenderable exampleGetReader exampleGetColorConverter
          initialRenderer (rgba 0 0 0 0) xyRenderable xyCloud) = Returned \<and>
   length (array (attr_position (geometry (snd (snd (snd
     (updatePointCloudRenderable exampleGetReader exampleGetColorConverter
          initialRenderer (rgba 0 0 0 0) xyRenderable xyCloud))))))) = 9 \<and>
   array (attr_position (geometry (snd (snd (snd
     (updatePointCloudRenderable exampleGetReader exampleGetColorConverter
          initialRenderer (rgba 0 0 0 0) xyRenderable xyCloud)))))) ! 2 = Finite 0 \<and>
   array (attr_position (geometry (snd (snd (snd
     (updatePointCloudRenderable exampleGetReader exampleGetColorConverter
          initialRenderer (rgba 0 0 0 0) xyRenderable xyCloud)))))) ! 5 = Finite 0 \<and>
   array (attr_position (geometry (snd (snd (snd
     (updatePointCloudRenderable exampleGetReader exampleGetColorConverter
          initialRenderer (rgba 0 0 0 0) xyRenderable xyCloud)))))) ! 8 = Finite 0 \<and>
   (\<exists>msg. validatePointCloud exampleGetReader (settings xyRenderable) xOnlyCloud = Inl msg) \<and>
   geometry (snd (snd (snd
     (updatePointCloudRenderable exampleGetReader exampleGetColorConverter
          initialRenderer (rgba 0 0 0 0) xyRenderable xOnlyCloud)))) = geometry xyRenderable"
proof -
  let ?res = "updatePointCloudRenderable exampleGetReader exampleGetColorConverter
          initialRenderer (rgba 0 0 0 0) xyRenderable xyCloud"
  let ?pos = "array (attr_position (geometry (snd (snd (snd ?res)))))"
  have hyp: "structuralError xyCloud = None \<and>
    (\<forall>f \<in> set (pc_fields xyCloud).
        (name f = ''x'' \<or> name f = ''y'') \<and> exampleGetReader f (point_step xyCloud) \<noteq> None) \<and>
    list_ex (\<lambda>f. name f = ''x'') (pc_fields xyCloud) \<and>
    list_ex (\<lambda>f. name f = ''y'') (pc_fields xyCloud) \<and>
    geometry_ok (geometry xyRenderable)"
    by (simp add: xyCloud_structural example_fields xyCloud_facts exampleGetReader_def
          byteField_def xyRenderable_geometry_ok)
  have few: "length (filter (resolves exampleGetReader xOnlyCloud) [''x'', ''y'', ''z'']) < 2"
    by (simp add: resolves_def xOnlyCloud_def cloud_def byteField_def exampleGetReader_def)
  have dec: "fst ?res = Returned \<and> length ?pos = 3 * pointCount xyCloud \<and>
      (\<forall>i < pointCount xyCloud. ?pos ! (3 * i + 2) = Finite 0)"
    using C4_position_readers [where getReader = exampleGetReader
            and getColorConverter = exampleGetColorConverter and rd = initialRenderer
            and tc = "rgba 0 0 0 0" and renderable = xyRenderable and pc = xyCloud] hyp
    by blast
  have rej: "(\<exists>msg. validatePointCloud exampleGetReader (settings xyRenderable) xOnlyCloud
                = Inl msg) \<and>
      geometry (snd (snd (snd
        (updatePointCloudRenderable exampleGetReader exampleGetColorConverter
          initialRenderer (rgba 0 0 0 0) xyRenderable xOnlyCloud)))) = geometry xyRenderable"
    using C4_position_readers [where getReader = exampleGetReader
            and getColorConverter = exampleGetColorConverter and rd = initialRenderer
            and tc = "rgba 0 0 0 0" and renderable = xyRenderable and pc = xOnlyCloud] few
    by blast
  have z: "?pos ! (3 * i + 2) = Finite 0" if "i < 3" for i
    using dec that by (simp add: xyCloud_facts)
  from z [of 0] z [of 1] z [of 2] have "?pos ! 2 = Finite 0" "?pos ! 5 = Finite 0"
    "?pos ! 8 = Finite 0"
    by (simp_all add: numeral_2_eq_2)
  moreover have "fst ?res = Returned" "length ?pos = 9"
    using dec by (simp_all add: xyCloud_facts)
  ultimately show ?thesis
    using rej by blast
qed

section \<open>Point clouds: the domain of the color values\<close>















text \<open>Without points the scan leaves the two infinities it started from.\<close>

lemma colorDomain_no_points:
  "minValue st = None \<Longrightarrow> maxValue st = None \<Longrightarrow>
     colorDomain st rdr view 0 step = (PosInf, NegInf)"
  by (simp add: colorDomain_def Let_def orElse_def)





















section \<open>Point clouds: one renderable per topic\<close>

lemma distinct_Map_set:
  "distinct (map fst kvs) \<Longrightarrow> distinct (map fst (Map_set k v kvs))"
  by (simp add: keys_Map_set)

lemma key_in_Map_set: "k \<in> fst ` set (Map_set k v kvs)"
  by (induction kvs) (auto simp: rev_image_eqI)

lemma map_of_key: "map_of kvs k = Some v \<Longrightarrow> k \<in> fst ` set kvs"
  by (metis map_of_eq_None_iff option.distinct(1))

lemma map_of_no_key: "map_of kvs k = None \<Longrightarrow> k \<notin> fst ` set kvs"
  by (simp add: map_of_eq_None_iff)

lemma update_keeps_identity:
  fixes gr gcc rd tc r pc
  defines "res \<equiv> updatePointCloudRenderable gr gcc rd tc r pc"
  shows "object_id (snd (snd (snd res))) = object_id r"
    and "points (snd (snd (snd res))) = points r"
    and "topic (snd (snd (snd res))) = topic r"
    and "geometry_id (geometry (snd (snd (snd res)))) = geometry_id (geometry r)"
    and "materialCache (fst (snd res)) = materialCache rd"
  by (simp_all add: res_def updatePointCloudRenderable_def invalidPointCloudError_def
        resize_def Let_def split: sum.splits)

lemma update_rejected_geometry:
  assumes "validatePointCloud gr (settings r) pc = Inl msg"
  shows "geometry (snd (snd (snd (updatePointCloudRenderable gr gcc rd tc r pc)))) = geometry r"
  by (simp add: update_rejected [OF assms] invalidPointCloudError_def)

lemma add_known:
  assumes "map_of (pointCloudsByTopic c) k = Some r"
  shows "snd (addPointCloud2Message gr gcc k pc c) =
           c\<lparr>renderer := fst (snd (updatePointCloudRenderable gr gcc (renderer c)
                                     (tempColor c) r pc)),
             tempColor := fst (snd (snd (updatePointCloudRenderable gr gcc (renderer c)
                                     (tempColor c) r pc))),
             pointCloudsByTopic :=
               Map_set k (snd (snd (snd (updatePointCloudRenderable gr gcc (renderer c)
                                     (tempColor c) r pc))))
                 (pointCloudsByTopic c)\<rparr>"
  using assms by (simp add: addPointCloud2Message_def Let_def)

lemma add_new:
  fixes gr gcc k pc c
  defines "rc \<equiv> newRenderable k pc (nextId c) (materialCache (renderer c))"
  defines "res \<equiv> updatePointCloudRenderable gr gcc
                     ((renderer c)\<lparr>materialCache := snd rc\<rparr>) (tempColor c) (fst rc) pc"
  assumes "map_of (pointCloudsByTopic c) k = None"
  shows "snd (addPointCloud2Message gr gcc k pc c) =
           c\<lparr>renderer := fst (snd res),
             pointCloudsByTopic :=
               Map_set k (snd (snd (snd res))) (Map_set k (fst rc) (pointCloudsByTopic c)),
             children := children c @ [object_id (fst rc)],
             tempColor := fst (snd (snd res)),
             nextId := nextId c + 3\<rparr>"
  using assms(3) by (simp add: addPointCloud2Message_def Let_def rc_def res_def)

lemma newRenderable_identity:
  "object_id (fst (newRenderable k pc i cache)) = i"
  "geometry_id (geometry (fst (newRenderable k pc i cache))) = i + 1"
  "points_geometry (points (fst (newRenderable k pc i cache))) = i + 1"
  "snd (newRenderable k pc i cache) =
     acquire (material (points (fst (newRenderable k pc i cache)))) cache"
  "topic (fst (newRenderable k pc i cache)) = k"
  by (simp_all add: newRenderable_def Let_def createAttribute_def
        DynamicBufferGeometry_new_def pointsMaterial_def)


lemma add_other_topics:
  "k' \<noteq> k \<Longrightarrow>
     map_of (pointCloudsByTopic (snd (addPointCloud2Message gr gcc k pc c))) k' =
       map_of (pointCloudsByTopic c) k'"
  by (cases "map_of (pointCloudsByTopic c) k")
     (simp_all add: add_new add_known map_of_Map_set)

lemma add_keeps_distinct:
  "distinct (map fst (pointCloudsByTopic c)) \<Longrightarrow>
     distinct (map fst (pointCloudsByTopic (snd (addPointCloud2Message gr gcc k pc c))))"
  by (cases "map_of (pointCloudsByTopic c) k")
     (simp_all add: add_new add_known distinct_Map_set)

text \<open>
  C7, as the code has it. A topic never has more than one entry in the Map, and a
  message touches the entry of no other topic. The first message of a topic creates a
  renderable with its own geometry, takes a material from the cache, registers the
  renderable under the topic and attaches it to the collection. Every later message of
  the topic finds that renderable: the same object with the same geometry object and
  the same points object; nothing is created, attached or taken from the cache. A
  later message that passes validation leaves the buffers sized for exactly
  \<open>pointCount\<close> points, and the buffers are replaced only when that count differs
  from the count they were sized for. A later message that fails validation is not
  decoded and leaves the geometry, with its buffers, exactly as it was.
\<close>

theorem C7_renderable_reuse:
  fixes getReader getColorConverter topicName pc c
  defines "c' \<equiv> snd (addPointCloud2Message getReader getColorConverter topicName pc c)"
  shows
  "(distinct (map fst (pointCloudsByTopic c)) \<longrightarrow>
      distinct (map fst (pointCloudsByTopic c'))) \<and>
   (\<forall>other. other \<noteq> topicName \<longrightarrow>
      map_of (pointCloudsByTopic c') other = map_of (pointCloudsByTopic c) other) \<and>
   (map_of (pointCloudsByTopic c) topicName = None \<longrightarrow>
      map fst (pointCloudsByTopic c') = map fst (pointCloudsByTopic c) @ [topicName] \<and>
      children c' = children c @ [nextId c] \<and>
      (\<exists>r'. map_of (pointCloudsByTopic c') topicName = Some r' \<and>
            object_id r' = nextId c \<and>
            geometry_id (geometry r') = nextId c + 1 \<and>
            points_geometry (points r') = nextId c + 1 \<and>
            materialCache (renderer c') =
              acquire (material (points r')) (materialCache (renderer c)))) \<and>
   (map_of (pointCloudsByTopic c) topicName = Some r \<longrightarrow>
      map fst (pointCloudsByTopic c') = map fst (pointCloudsByTopic c) \<and>
      children c' = children c \<and> nextId c' = nextId c \<and>
      materialCache (renderer c') = materialCache (renderer c) \<and>
      (\<exists>r'. map_of (pointCloudsByTopic c') topicName = Some r' \<and>
            object_id r' = object_id r \<and>
            geometry_id (geometry r') = geometry_id (geometry r) \<and>
            points r' = points r)) \<and>
   (map_of (pointCloudsByTopic c) topicName = Some r \<and> geometry_ok (geometry r) \<and>
    validatePointCloud getReader (settings r) pc = Inr rs \<longrightarrow>
      (\<exists>r'. map_of (pointCloudsByTopic c') topicName = Some r' \<and>
            itemCount (geometry r') = pointCount pc \<and>
            length (array (attr_position (geometry r'))) = 3 * pointCount pc \<and>
            length (array (attr_color (geometry r'))) = 4 * pointCount pc \<and>
            allocations (geometry r') =
              (if pointCount pc = itemCount (geometry r) then allocations (geometry r)
               else Suc (allocations (geometry r))))) \<and>
   (map_of (pointCloudsByTopic c) topicName = Some r \<and>
    validatePointCloud getReader (settings r) pc = Inl msg \<longrightarrow>
      (\<exists>r'. map_of (pointCloudsByTopic c') topicName = Some r' \<and>
            geometry r' = geometry r))"
proof -
  have one: "distinct (map fst (pointCloudsByTopic c')) "
    if "distinct (map fst (pointCloudsByTopic c))"
    unfolding c'_def using that by (rule add_keeps_distinct)
  have two: "map_of (pointCloudsByTopic c') other = map_of (pointCloudsByTopic c) other"
    if "other \<noteq> topicName" for other
    unfolding c'_def using that by (rule add_other_topics)
  have three: "map fst (pointCloudsByTopic c') = map fst (pointCloudsByTopic c) @ [topicName] \<and>
      children c' = children c @ [nextId c] \<and>
      (\<exists>r'. map_of (pointCloudsByTopic c') topicName = Some r' \<and>
            object_id r' = nextId c \<and>
            geometry_id (geometry r') = nextId c + 1 \<and>
            points_geometry (points r') = nextId c + 1 \<and>
            materialCache (renderer c') =
              acquire (material (points r')) (materialCache (renderer c)))"
    if n: "map_of (pointCloudsByTopic c) topicName = None"
  proof -
    let ?rc = "newRenderable topicName pc (nextId c) (materialCache (renderer c))"
    let ?res = "updatePointCloudRenderable getReader getColorConverter
                  ((renderer c)\<lparr>materialCache := snd ?rc\<rparr>) (tempColor c) (fst ?rc) pc"
    note new = add_new [OF n, of getReader getColorConverter pc, folded c'_def]
    note idn = update_keeps_identity [of getReader getColorConverter
                 "(renderer c)\<lparr>materialCache := snd ?rc\<rparr>" "tempColor c" "fst ?rc" pc]
    have keys: "map fst (pointCloudsByTopic c') = map fst (pointCloudsByTopic c) @ [topicName]"
      using map_of_no_key [OF n] by (simp add: new keys_Map_set key_in_Map_set)
    have kids: "children c' = children c @ [nextId c]"
      by (simp add: new newRenderable_identity)
    have look: "map_of (pointCloudsByTopic c') topicName = Some (snd (snd (snd ?res)))"
      by (simp add: new map_of_Map_set)
    have cache: "materialCache (renderer c') =
                   acquire (material (points (snd (snd (snd ?res)))))
                     (materialCache (renderer c))"
    proof -
      have "materialCache (renderer c') = materialCache (fst (snd ?res))"
        by (simp add: new)
      also have "\<dots> = snd ?rc"
        by (simp only: idn(5)) simp
      also have "\<dots> = acquire (material (points (fst ?rc))) (materialCache (renderer c))"
        by (rule newRenderable_identity(4))
      also have "points (fst ?rc) = points (snd (snd (snd ?res)))"
        by (simp only: idn(2))
      finally show ?thesis .
    qed
    show ?thesis
      using keys kids look cache idn by (simp add: newRenderable_identity)
  qed
  have four: "map fst (pointCloudsByTopic c') = map fst (pointCloudsByTopic c) \<and>
      children c' = children c \<and> nextId c' = nextId c \<and>
      materialCache (renderer c') = materialCache (renderer c) \<and>
      (\<exists>r'. map_of (pointCloudsByTopic c') topicName = Some r' \<and>
            object_id r' = object_id r \<and>
            geometry_id (geometry r') = geometry_id (geometry r) \<and>
            points r' = points r)"
    if k: "map_of (pointCloudsByTopic c) topicName = Some r"
  proof -
    note known = add_known [OF k, of getReader getColorConverter pc, folded c'_def]
    note idn = update_keeps_identity [of getReader getColorConverter
                 "renderer c" "tempColor c" r pc]
    show ?thesis
      using map_of_key [OF k] idn by (simp add: known keys_Map_set map_of_Map_set)
  qed
  have five: "\<exists>r'. map_of (pointCloudsByTopic c') topicName = Some r' \<and>
            itemCount (geometry r') = pointCount pc \<and>
            length (array (attr_position (geometry r'))) = 3 * pointCount pc \<and>
            length (array (attr_color (geometry r'))) = 4 * pointCount pc \<and>
            allocations (geometry r') =
              (if pointCount pc = itemCount (geometry r) then allocations (geometry r)
               else Suc (allocations (geometry r)))"
    if a: "map_of (pointCloudsByTopic c) topicName = Some r \<and> geometry_ok (geometry r) \<and>
           validatePointCloud getReader (settings r) pc = Inr rs"
  proof -
    from a have k: "map_of (pointCloudsByTopic c) topicName = Some r"
      and ok: "geometry_ok (geometry r)"
      and v: "validatePointCloud getReader (settings r) pc = Inr rs"
      by simp_all
    note known = add_known [OF k, of getReader getColorConverter pc, folded c'_def]
    note d = update_decoded [OF v ok, of getColorConverter "renderer c" "tempColor c"]
    show ?thesis
      using d(3,4,5) by (simp add: known map_of_Map_set geometry_ok_def)
  qed
  have six: "\<exists>r'. map_of (pointCloudsByTopic c') topicName = Some r' \<and>
            geometry r' = geometry r"
    if a: "map_of (pointCloudsByTopic c) topicName = Some r \<and>
           validatePointCloud getReader (settings r) pc = Inl msg"
  proof -
    from a have k: "map_of (pointCloudsByTopic c) topicName = Some r"
      and v: "validatePointCloud getReader (settings r) pc = Inl msg"
      by simp_all
    note known = add_known [OF k, of getReader getColorConverter pc, folded c'_def]
    show ?thesis
      by (simp add: known map_of_Map_set update_rejected_geometry [OF v])
  qed
  show ?thesis
    using one two three four five six by blast
qed


lemma bgrCloud_facts:
  "structuralError bgrCloud = None"
  "point_step bgrCloud = 3"
  by (simp_all add: structuralError_def remainder_nonzero_def bgrCloud_def cloud_def)

lemma xy_validate:
  assumes "colorField st = Some ''x''"
  shows "\<exists>rs. validatePointCloud exampleGetReader st xyCloud = Inr rs"
    and "\<exists>rs. validatePointCloud exampleGetReader st bgrCloud = Inr rs"
  using assms
  by (simp_all add: validatePointCloud_def xyCloud_structural bgrCloud_facts
        resolveReaders_def example_fields xyCloud_facts bindPosition_def bindColor_def
        allBound_def noReaders_def exampleGetReader_def byteField_def
        positionReaderCount_def)

lemma bgrCloud_count: "pointCount bgrCloud = 2"
  by (simp add: bgrCloud_def cloud_def pointCount_def)

lemma raggedCloud_count: "pointCount raggedCloud = 1"
  by (simp add: raggedCloud_def cloud_def pointCount_def)

lemma xyRenderable_colorField: "colorField (settings xyRenderable) = Some ''x''"
  by (simp add: xyRenderable_def newRenderable_def Let_def autoSelectColorField_def
        example_fields COLOR_FIELDS_def INTENSITY_FIELDS_def initialSettings_def)

lemma emptyCollection_facts:
  "map_of (pointCloudsByTopic emptyCollection) k = None"
  "pointCloudsByTopic emptyCollection = []"
  "children emptyCollection = []"
  "nextId emptyCollection = 0"
  "renderer emptyCollection = initialRenderer"
  by (simp_all add: emptyCollection_def PointClouds_new_def)

text \<open>The renderable the collection holds after \<open>xyCloud\<close>.\<close>

lemma afterXY_renderable:
  "\<exists>r. map_of (pointCloudsByTopic afterXY) ''/points'' = Some r \<and>
       geometry_ok (geometry r) \<and> itemCount (geometry r) = 3 \<and>
       allocations (geometry r) = 1 \<and> colorField (settings r) = Some ''x''"
proof -
  let ?res = "updatePointCloudRenderable exampleGetReader exampleGetColorConverter
     (initialRenderer\<lparr>materialCache :=
        snd (newRenderable ''/points'' xyCloud 0 (materialCache initialRenderer))\<rparr>)
     (tempColor emptyCollection) xyRenderable xyCloud"
  from xy_validate(1) [OF xyRenderable_colorField] obtain rs where
    v: "validatePointCloud exampleGetReader (settings xyRenderable) xyCloud = Inr rs"
    by blast
  note d = update_decoded [OF v xyRenderable_geometry_ok, of exampleGetColorConverter
             "initialRenderer\<lparr>materialCache :=
        snd (newRenderable ''/points'' xyCloud 0 (materialCache initialRenderer))\<rparr>"
             "tempColor emptyCollection"]
  have zero: "itemCount (geometry xyRenderable) = 0" "allocations (geometry xyRenderable) = 0"
    by (simp_all add: xyRenderable_def newRenderable_def Let_def createAttribute_def
          DynamicBufferGeometry_new_def)
  have look: "map_of (pointCloudsByTopic afterXY) ''/points'' = Some (snd (snd (snd ?res)))"
    unfolding afterXY_def
    by (simp add: add_lookup_new emptyCollection_facts xyRenderable_def)
  have "geometry_ok (geometry (snd (snd (snd ?res))))"
    by (rule d(3))
  moreover have "itemCount (geometry (snd (snd (snd ?res)))) = 3"
    using d(4) by (simp add: xyCloud_facts)
  moreover have "allocations (geometry (snd (snd (snd ?res)))) = 1"
    using d(5) by (simp add: xyCloud_facts zero)
  moreover have "colorField (settings (snd (snd (snd ?res)))) = Some ''x''"
    by (simp add: update_keeps_settings xyRenderable_colorField)
  ultimately show ?thesis
    using look by blast
qed

text \<open>
  C7 as stated fails: the topic holds three points after \<open>xyCloud\<close>; then
  \<open>raggedCloud\<close> arrives, whose \<open>trunc(data.length / point_step)\<close> is 1; it is
  rejected, and the buffers are not sized for one point afterwards.
\<close>

theorem C7_counterexample:
  "pointCount raggedCloud = 1 \<and>
   map_option (itemCount \<circ> geometry) (map_of (pointCloudsByTopic afterXY) ''/points'')
     = Some 3 \<and>
   map_option (itemCount \<circ> geometry)
     (map_of (pointCloudsByTopic
        (snd (addPointCloud2Message exampleGetReader exampleGetColorConverter ''/points''
                raggedCloud afterXY))) ''/points'')
     \<noteq> Some (pointCount raggedCloud)"
proof -
  from afterXY_renderable obtain r where
    r: "map_of (pointCloudsByTopic afterXY) ''/points'' = Some r"
       "itemCount (geometry r) = 3"
    by blast
  have v: "validatePointCloud exampleGetReader (settings r) raggedCloud =
             Inl (DataLengthNotMultiple 7 4)"
    by (simp add: validatePointCloud_def raggedCloud_structural)
  have "map_of (pointCloudsByTopic
        (snd (addPointCloud2Message exampleGetReader exampleGetColorConverter ''/points''
                raggedCloud afterXY))) ''/points''
      = Some (snd (snd (snd (updatePointCloudRenderable exampleGetReader
                exampleGetColorConverter (renderer afterXY) (tempColor afterXY) r
                raggedCloud))))"
    using r(1) by (rule add_lookup_known)
  then show ?thesis
    using r by (simp add: update_rejected_geometry [OF v] raggedCloud_count)
qed

text \<open>
  Witness: the first \<open>xyCloud\<close> on a topic registers and attaches one renderable; a
  second \<open>xyCloud\<close> keeps topics, children and buffers (one allocation so far);
  \<open>bgrCloud\<close>, with two points, makes the buffers be replaced; \<open>raggedCloud\<close>, which
  is rejected, leaves the geometry as it is.
\<close>

theorem C7_witness:
  "map fst (pointCloudsByTopic afterXY) = [''/points''] \<and>
   children afterXY = [0] \<and>
   map fst (pointCloudsByTopic
     (snd (addPointCloud2Message exampleGetReader exampleGetColorConverter ''/points''
             xyCloud afterXY))) = [''/points''] \<and>
   children (snd (addPointCloud2Message exampleGetReader exampleGetColorConverter
             ''/points'' xyCloud afterXY)) = [0] \<and>
   map_option (allocations \<circ> geometry) (map_of (pointCloudsByTopic
     (snd (addPointCloud2Message exampleGetReader exampleGetColorConverter ''/points''
             xyCloud afterXY))) ''/points'') = Some 1 \<and>
   map_option (itemCount \<circ> geometry) (map_of (pointCloudsByTopic
     (snd (addPointCloud2Message exampleGetReader exampleGetColorConverter ''/points''
             bgrCloud afterXY))) ''/points'') = Some 2 \<and>
   map_option (allocations \<circ> geometry) (map_of (pointCloudsByTopic
     (snd (addPointCloud2Message exampleGetReader exampleGetColorConverter ''/points''
             bgrCloud afterXY))) ''/points'') = Some 2 \<and>
   map_option geometry (map_of (pointCloudsByTopic
     (snd (addPointCloud2Message exampleGetReader exampleGetColorConverter ''/points''
             raggedCloud afterXY))) ''/points'')
     = map_option geometry (map_of (pointCloudsByTopic afterXY) ''/points'')"
proof -
  let ?gr = exampleGetReader and ?gcc = exampleGetColorConverter
  from afterXY_renderable obtain r where
    r: "map_of (pointCloudsByTopic afterXY) ''/points'' = Some r"
       "geometry_ok (geometry r)" "itemCount (geometry r) = 3"
       "allocations (geometry r) = 1" "colorField (settings r) = Some ''x''"
    by blast
  from xy_validate [OF r(5)] obtain rs1 rs2 where
    v1: "validatePointCloud ?gr (settings r) xyCloud = Inr rs1" and
    v2: "validatePointCloud ?gr (settings r) bgrCloud = Inr rs2"
    by blast
  have first: "map fst (pointCloudsByTopic afterXY) = [''/points''] \<and> children afterXY = [0]"
    using C7_renderable_reuse [where getReader = ?gr and getColorConverter = ?gcc
            and topicName = "''/points''" and pc = xyCloud and c = emptyCollection
            and r = r and rs = rs1]
    by (simp add: emptyCollection_facts afterXY_def)
  have again: "map fst (pointCloudsByTopic
       (snd (addPointCloud2Message ?gr ?gcc ''/points'' xyCloud afterXY))) = [''/points''] \<and>
     children (snd (addPointCloud2Message ?gr ?gcc ''/points'' xyCloud afterXY)) = [0] \<and>
     map_option (allocations \<circ> geometry) (map_of (pointCloudsByTopic
       (snd (addPointCloud2Message ?gr ?gcc ''/points'' xyCloud afterXY))) ''/points'')
       = Some 1"
    using C7_renderable_reuse [where getReader = ?gr and getColorConverter = ?gcc
            and topicName = "''/points''" and pc = xyCloud and c = afterXY
            and r = r and rs = rs1] r v1 first
    by (auto simp: xyCloud_facts)
  have other: "map_option (itemCount \<circ> geometry) (map_of (pointCloudsByTopic
       (snd (addPointCloud2Message ?gr ?gcc ''/points'' bgrCloud afterXY))) ''/points'')
       = Some 2 \<and>
     map_option (allocations \<circ> geometry) (map_of (pointCloudsByTopic
       (snd (addPointCloud2Message ?gr ?gcc ''/points'' bgrCloud afterXY))) ''/points'')
       = Some 2"
    using C7_renderable_reuse [where getReader = ?gr and getColorConverter = ?gcc
            and topicName = "''/points''" and pc = bgrCloud and c = afterXY
            and r = r and rs = rs2] r v2
    by (auto simp: bgrCloud_count)
  have v3: "validatePointCloud ?gr (settings r) raggedCloud = Inl (DataLengthNotMultiple 7 4)"
    by (simp add: validatePointCloud_def raggedCloud_structural)
  have rejected: "map_option geometry (map_of (pointCloudsByTopic
       (snd (addPointCloud2Message ?gr ?gcc ''/points'' raggedCloud afterXY))) ''/points'')
       = map_option geometry (map_of (pointCloudsByTopic afterXY) ''/points'')"
    using C7_renderable_reuse [where getReader = ?gr and getColorConverter = ?gcc
            and topicName = "''/points''" and pc = raggedCloud and c = afterXY
            and r = r and rs = rs1 and msg = "DataLengthNotMultiple 7 4"] r(1) v3
    by auto
  show ?thesis
    using first again other rejected by blast
qed

end
